theory Spec2Isabelle
  imports Complex_Main "HOL-Library.Char_ord" "HOL-Library.List_Lexorder" "HOL-Library.Word"
begin

section \<open>Python values shared by both modules\<close>

text \<open>
  The two modules verified here are \<^verbatim>\<open>vs_utils/features/nnscore.py\<close> (the Binana
  fingerprint) and \<^verbatim>\<open>vs_utils/utils/grid_featurizer.py\<close> (the voxel and vector
  aggregators). Floating-point numbers are modelled by exact reals; where numpy produces
  a value that is not a number this is written out (\<open>None\<close> for NaN). Exceptions are
  values of the type \<open>py_error\<close>, and a function that can raise returns
  \<open>py_error + 'a\<close>.
\<close>

datatype py_error =
  KeyError | IndexError | ZeroDivisionError | TypeError | ValueError | UnspecifiedCast

text \<open>A \<^verbatim>\<open>for\<close> loop whose body can raise: the first exception ends the loop.\<close>

fun for_each :: "('a \<Rightarrow> 's \<Rightarrow> 'e + 's) \<Rightarrow> 'a list \<Rightarrow> 's \<Rightarrow> 'e + 's" where
  "for_each body [] s = Inr s"
| "for_each body (x # xs) s =
     (case body x s of Inl e \<Rightarrow> Inl e | Inr s' \<Rightarrow> for_each body xs s')"

text \<open>\<^verbatim>\<open>sep.join(xs)\<close> on a list of strings.\<close>

fun join :: "string \<Rightarrow> string list \<Rightarrow> string" where
  "join sep [] = []"
| "join sep [x] = x"
| "join sep (x # y # ys) = x @ sep @ join sep (y # ys)"

section \<open>nnscore.py: constants and helpers\<close>

definition ELECTROSTATIC_JOULE_PER_MOL :: real where
  "ELECTROSTATIC_JOULE_PER_MOL = 13894238460104697 / 10 ^ 10"

definition H_BOND_DIST :: real where
  "H_BOND_DIST = 13 / 10"

definition H_BOND_ANGLE :: real where
  "H_BOND_ANGLE = 40"

definition CLOSE_CONTACT_CUTOFF :: real where
  "CLOSE_CONTACT_CUTOFF = 5 / 2"

definition CONTACT_CUTOFF :: real where
  "CONTACT_CUTOFF = 4"

definition PI_PI_CUTOFF :: real where
  "PI_PI_CUTOFF = 15 / 2"

definition CATION_PI_CUTOFF :: real where
  "CATION_PI_CUTOFF = 6"

definition SALT_BRIDGE_CUTOFF :: real where
  "SALT_BRIDGE_CUTOFF = 11 / 2"

definition PI_PADDING :: real where
  "PI_PADDING = 3 / 4"

text \<open>
  \<^verbatim>\<open>hashtable_entry_add_one(hashtable, key, toadd = 1)\<close>: the dictionary is mutated in
  place in the source and returned updated here. A key that is absent is created.
\<close>

definition hashtable_entry_add_one :: "('k \<rightharpoonup> 'a::plus) \<Rightarrow> 'k \<Rightarrow> 'a \<Rightarrow> ('k \<rightharpoonup> 'a)" where
  "hashtable_entry_add_one hashtable key toadd =
     (case hashtable key of
        Some old \<Rightarrow> hashtable(key \<mapsto> old + toadd)
      | None \<Rightarrow> hashtable(key \<mapsto> toadd))"

section \<open>nnscore.py: the molecules the detectors read\<close>

text \<open>
  The classes \<^verbatim>\<open>PDB\<close>, \<^verbatim>\<open>Point\<close> and \<^verbatim>\<open>MathFunctions\<close> live in
  \<^verbatim>\<open>nnscore_pdb.py\<close> and \<^verbatim>\<open>nnscore_utils.py\<close>, which are not part of the sources
  at hand. The detectors only read fields of the objects, so the objects are records
  with exactly the fields that \<^verbatim>\<open>nnscore.py\<close> reads; the geometric helpers are taken
  as parameters, collected in the record \<open>nnscore_utils\<close>. Nothing is assumed about
  them.

  The field \<open>atom_structure\<close> is the attribute \<^verbatim>\<open>structure\<close> of an atom and
  \<open>side_chain_or_backbone\<close> is the string returned by the method of that name.
  \<open>all_atoms\<close> is the dictionary from atom index to atom, listed in the order in which
  Python iterates over it (so the indices are distinct).
\<close>

type_synonym point = "real \<times> real \<times> real"

record atom =
  coordinates :: point
  element :: string
  atomtype :: string
  charge :: real
  atom_structure :: string
  comment :: string
  side_chain_or_backbone :: string

record aromatic_ring =
  center :: point
  plane_coeff :: "real \<times> real \<times> real \<times> real"
  indices :: "nat list"
  radius :: real

record charged =
  charged_coordinates :: point
  positive :: bool
  charged_indices :: "nat list"

record pdb =
  all_atoms :: "(nat \<times> atom) list"
  aromatic_rings :: "aromatic_ring list"
  charges :: "charged list"
  rotatable_bonds_count :: nat

record nnscore_utils =
  dist_to :: "point \<Rightarrow> point \<Rightarrow> real"
  angle_between_three_points :: "point \<Rightarrow> point \<Rightarrow> point \<Rightarrow> real"
  angle_between_points :: "point \<Rightarrow> point \<Rightarrow> real"
  project_point_onto_plane :: "point \<Rightarrow> real \<times> real \<times> real \<times> real \<Rightarrow> point"

text \<open>
  \<^verbatim>\<open>for i in mol.all_atoms: a = mol.all_atoms[i]\<close> visits the atoms in dictionary
  order; \<^verbatim>\<open>mol.all_atoms[i]\<close> for an index read from a ring or a charged group
  raises \<^verbatim>\<open>KeyError\<close> when the index is absent; \<^verbatim>\<open>indices[0]\<close> raises
  \<^verbatim>\<open>IndexError\<close> on an empty list.
\<close>

definition atoms :: "pdb \<Rightarrow> atom list" where
  "atoms mol = map snd (all_atoms mol)"

definition atom_at :: "pdb \<Rightarrow> nat \<Rightarrow> py_error + atom" where
  "atom_at mol i = (case map_of (all_atoms mol) i of None \<Rightarrow> Inl KeyError | Some a \<Rightarrow> Inr a)"

definition first_index :: "nat list \<Rightarrow> py_error + nat" where
  "first_index idxs = (case idxs of [] \<Rightarrow> Inl IndexError | i # _ \<Rightarrow> Inr i)"

definition atom_types :: "string list" where
  "atom_types =
     [''A'', ''BR'', ''C'', ''CD'', ''CL'', ''CU'', ''F'', ''FE'', ''H'', ''HD'', ''I'', ''MG'',
      ''MN'', ''N'', ''NA'', ''O'', ''OA'', ''P'', ''S'', ''SA'', ''ZN'']"

text \<open>\<^verbatim>\<open>"_".join(sorted([first, second]))\<close>, the key of an unordered pair of atom types.\<close>

definition atom_pair_key :: "string \<Rightarrow> string \<Rightarrow> string" where
  "atom_pair_key first_type second_type = join ''_'' (sort [first_type, second_type])"

text \<open>
  The keys that the loop over \<^verbatim>\<open>itertools.product(Binana.atom_types, Binana.atom_types)\<close>
  sets to zero.
\<close>

definition atom_pair_keys :: "string list" where
  "atom_pair_keys =
     map (\<lambda>(first_type, second_type). atom_pair_key first_type second_type)
       (List.product atom_types atom_types)"

definition zero_dict :: "'k list \<Rightarrow> ('k \<rightharpoonup> 'a::zero)" where
  "zero_dict keys = fold (\<lambda>key d. d(key \<mapsto> 0)) keys Map.empty"

definition residue_structure_keys :: "string list" where
  "residue_structure_keys =
     [''BACKBONE_ALPHA'', ''BACKBONE_BETA'', ''BACKBONE_OTHER'',
      ''SIDECHAIN_ALPHA'', ''SIDECHAIN_BETA'', ''SIDECHAIN_OTHER'']"

definition hbond_keys :: "string list" where
  "hbond_keys =
     [''HDONOR-LIGAND_BACKBONE_ALPHA'', ''HDONOR-LIGAND_BACKBONE_BETA'',
      ''HDONOR-LIGAND_BACKBONE_OTHER'', ''HDONOR-LIGAND_SIDECHAIN_ALPHA'',
      ''HDONOR-LIGAND_SIDECHAIN_BETA'', ''HDONOR-LIGAND_SIDECHAIN_OTHER'',
      ''HDONOR-RECEPTOR_BACKBONE_ALPHA'', ''HDONOR-RECEPTOR_BACKBONE_BETA'',
      ''HDONOR-RECEPTOR_BACKBONE_OTHER'', ''HDONOR-RECEPTOR_SIDECHAIN_ALPHA'',
      ''HDONOR-RECEPTOR_SIDECHAIN_BETA'', ''HDONOR-RECEPTOR_SIDECHAIN_OTHER'']"

definition stacking_keys :: "string list" where
  "stacking_keys = [''STACKING_ALPHA'', ''STACKING_BETA'', ''STACKING_OTHER'']"

definition t_shaped_keys :: "string list" where
  "t_shaped_keys = [''T-SHAPED_ALPHA'', ''T-SHAPED_BETA'', ''T-SHAPED_OTHER'']"

definition pi_cation_keys :: "string list" where
  "pi_cation_keys =
     [''PI-CATION_LIGAND-CHARGED_ALPHA'', ''PI-CATION_LIGAND-CHARGED_BETA'',
      ''PI-CATION_LIGAND-CHARGED_OTHER'', ''PI-CATION_RECEPTOR-CHARGED_ALPHA'',
      ''PI-CATION_RECEPTOR-CHARGED_BETA'', ''PI-CATION_RECEPTOR-CHARGED_OTHER'']"

definition salt_bridge_keys :: "string list" where
  "salt_bridge_keys = [''SALT-BRIDGE_ALPHA'', ''SALT-BRIDGE_BETA'', ''SALT-BRIDGE_OTHER'']"

section \<open>nnscore.py: the detectors of class Binana\<close>

text \<open>
  Each detector starts from its dictionary literal (every key at zero) and runs its
  loops over it. The parameter \<open>u\<close> stands for \<^verbatim>\<open>self.functions\<close> and the methods of
  \<^verbatim>\<open>Point\<close>.
\<close>

definition compute_hydrophobic_contacts :: "nnscore_utils \<Rightarrow> pdb \<Rightarrow> pdb \<Rightarrow> (string \<rightharpoonup> int)" where
  "compute_hydrophobic_contacts u ligand receptor =
     fold (\<lambda>ligand_atom. fold (\<lambda>receptor_atom hydrophobics.
         let dist = dist_to u (coordinates ligand_atom) (coordinates receptor_atom)
         in if dist < CONTACT_CUTOFF
            then if element ligand_atom = ''C'' \<and> element receptor_atom = ''C''
                 then hashtable_entry_add_one hydrophobics
                        (side_chain_or_backbone receptor_atom @ ''_'' @ atom_structure receptor_atom) 1
                 else hydrophobics
            else hydrophobics)
       (atoms receptor)) (atoms ligand) (zero_dict residue_structure_keys)"

text \<open>
  In \<^verbatim>\<open>compute_electrostatic_energy\<close> the quotient by \<^verbatim>\<open>dist\<close> is a Python float
  division, which raises \<^verbatim>\<open>ZeroDivisionError\<close> at distance zero (with numpy scalars
  the quotient would be an infinity or NaN instead: in neither case a finite energy).
\<close>

definition compute_electrostatic_energy :: "nnscore_utils \<Rightarrow> pdb \<Rightarrow> pdb \<Rightarrow> py_error + (string \<rightharpoonup> real)" where
  "compute_electrostatic_energy u ligand receptor =
     for_each (\<lambda>ligand_atom. for_each (\<lambda>receptor_atom ligand_receptor_electrostatics.
         let atomstr = atom_pair_key (atomtype ligand_atom) (atomtype receptor_atom);
             dist = dist_to u (coordinates ligand_atom) (coordinates receptor_atom)
         in if dist < CONTACT_CUTOFF
            then let ligand_charge = charge ligand_atom;
                     receptor_charge = charge receptor_atom
                 in if dist = 0 then Inl ZeroDivisionError
                    else let coulomb_energy =
                               (ligand_charge * receptor_charge / dist) * ELECTROSTATIC_JOULE_PER_MOL
                         in Inr (hashtable_entry_add_one ligand_receptor_electrostatics
                                   atomstr coulomb_energy)
            else Inr ligand_receptor_electrostatics)
       (atoms receptor)) (atoms ligand) (zero_dict atom_pair_keys)"

definition compute_active_site_flexibility :: "nnscore_utils \<Rightarrow> pdb \<Rightarrow> pdb \<Rightarrow> (string \<rightharpoonup> int)" where
  "compute_active_site_flexibility u ligand receptor =
     fold (\<lambda>ligand_atom. fold (\<lambda>receptor_atom active_site_flexibility.
         let dist = dist_to u (coordinates ligand_atom) (coordinates receptor_atom)
         in if dist < CONTACT_CUTOFF
            then hashtable_entry_add_one active_site_flexibility
                   (side_chain_or_backbone receptor_atom @ ''_'' @ atom_structure receptor_atom) 1
            else active_site_flexibility)
       (atoms receptor)) (atoms ligand) (zero_dict residue_structure_keys)"

text \<open>
  \<^verbatim>\<open>compute_hydrogen_bonds\<close> collects, for a pair of electronegative atoms in contact,
  the hydrogens of the ligand close to the ligand atom and the hydrogens of the receptor
  close to the receptor atom. The source writes the owner into the attribute
  \<^verbatim>\<open>comment\<close> of the hydrogen as it appends it to the list and reads the attribute
  back when it forms the key; the list here holds the atom with the attribute set. (The
  two agree as long as ligand and receptor do not share atom objects.)
\<close>

definition electronegative_atoms :: "string list" where
  "electronegative_atoms = [''O'', ''N'', ''F'']"

definition nearby_hydrogens :: "nnscore_utils \<Rightarrow> pdb \<Rightarrow> atom \<Rightarrow> string \<Rightarrow> atom list" where
  "nearby_hydrogens u mol heavy_atom owner =
     map (\<lambda>a. a\<lparr>comment := owner\<rparr>)
       (filter (\<lambda>a. element a = ''H'' \<and>
                     dist_to u (coordinates a) (coordinates heavy_atom) < H_BOND_DIST)
          (atoms mol))"

definition compute_hydrogen_bonds :: "nnscore_utils \<Rightarrow> pdb \<Rightarrow> pdb \<Rightarrow> (string \<rightharpoonup> int)" where
  "compute_hydrogen_bonds u ligand receptor =
     fold (\<lambda>ligand_atom. fold (\<lambda>receptor_atom hbonds.
         let dist = dist_to u (coordinates ligand_atom) (coordinates receptor_atom)
         in if dist < CONTACT_CUTOFF
            then if element ligand_atom \<in> set electronegative_atoms \<and>
                    element receptor_atom \<in> set electronegative_atoms
                 then let hydrogens = nearby_hydrogens u ligand ligand_atom ''LIGAND'' @
                                      nearby_hydrogens u receptor receptor_atom ''RECEPTOR''
                      in fold (\<lambda>hydrogen hbonds.
                           if \<bar>180 - angle_between_three_points u (coordinates ligand_atom)
                                       (coordinates hydrogen) (coordinates receptor_atom)
                                     * 180 / pi\<bar> \<le> H_BOND_ANGLE
                           then hashtable_entry_add_one hbonds
                                  (''HDONOR-'' @ comment hydrogen @ ''_'' @
                                   side_chain_or_backbone receptor_atom @ ''_'' @
                                   atom_structure receptor_atom) 1
                           else hbonds)
                         hydrogens hbonds
                 else hbonds
            else hbonds)
       (atoms receptor)) (atoms ligand) (zero_dict hbond_keys)"

definition compute_ligand_atom_counts :: "pdb \<Rightarrow> (string \<rightharpoonup> int)" where
  "compute_ligand_atom_counts ligand =
     fold (\<lambda>ligand_atom ligand_atom_types.
         hashtable_entry_add_one ligand_atom_types (atomtype ligand_atom) 1)
       (atoms ligand) (zero_dict atom_types)"

text \<open>
  \<^verbatim>\<open>compute_ligand_receptor_contacts\<close> updates two dictionaries in one pass and
  returns the close contacts first.
\<close>

definition compute_ligand_receptor_contacts ::
  "nnscore_utils \<Rightarrow> pdb \<Rightarrow> pdb \<Rightarrow> (string \<rightharpoonup> int) \<times> (string \<rightharpoonup> int)" where
  "compute_ligand_receptor_contacts u ligand receptor =
     (let (ligand_receptor_contacts, ligand_receptor_close_contacts) =
        fold (\<lambda>ligand_atom. fold (\<lambda>receptor_atom (contacts, close_contacts).
            let dist = dist_to u (coordinates ligand_atom) (coordinates receptor_atom);
                atomstr = atom_pair_key (atomtype ligand_atom) (atomtype receptor_atom)
            in (if dist < CONTACT_CUTOFF
                then hashtable_entry_add_one contacts atomstr 1 else contacts,
                if dist < CLOSE_CONTACT_CUTOFF
                then hashtable_entry_add_one close_contacts atomstr 1 else close_contacts))
          (atoms receptor)) (atoms ligand)
          (zero_dict atom_pair_keys, zero_dict atom_pair_keys)
      in (ligand_receptor_close_contacts, ligand_receptor_contacts))"

text \<open>
  The ring loops of the pi detectors: \<open>projects_inside\<close> is the loop that projects the
  atoms of one ring onto the plane of the other ring and stops at the first projection
  that falls within the padded radius.
\<close>

definition norm_vector :: "aromatic_ring \<Rightarrow> point" where
  "norm_vector ring = (case plane_coeff ring of (a, b, c, d) \<Rightarrow> (a, b, c))"

fun projects_inside :: "nnscore_utils \<Rightarrow> pdb \<Rightarrow> aromatic_ring \<Rightarrow> nat list \<Rightarrow> py_error + bool" where
  "projects_inside u mol other [] = Inr False"
| "projects_inside u mol other (ring_index # rest) =
     (case atom_at mol ring_index of
        Inl e \<Rightarrow> Inl e
      | Inr a \<Rightarrow>
          if dist_to u (project_point_onto_plane u (coordinates a) (plane_coeff other))
               (center other) \<le> radius other + PI_PADDING
          then Inr True
          else projects_inside u mol other rest)"

text \<open>
  The key of a ring interaction: the structure of the first atom of the receptor group,
  with the empty label replaced by \<^verbatim>\<open>OTHER\<close>.
\<close>

definition ring_structure_key :: "string \<Rightarrow> pdb \<Rightarrow> nat list \<Rightarrow> py_error + string" where
  "ring_structure_key prefix receptor idxs =
     (case first_index idxs of
        Inl e \<Rightarrow> Inl e
      | Inr i \<Rightarrow>
          (case atom_at receptor i of
             Inl e \<Rightarrow> Inl e
           | Inr a \<Rightarrow>
               let structure_label = atom_structure a;
                   structure_label = (if structure_label = '''' then ''OTHER'' else structure_label)
               in Inr (prefix @ structure_label)))"

definition compute_pi_pi_stacking :: "nnscore_utils \<Rightarrow> pdb \<Rightarrow> pdb \<Rightarrow> py_error + (string \<rightharpoonup> int)" where
  "compute_pi_pi_stacking u ligand receptor =
     for_each (\<lambda>lig_aromatic. for_each (\<lambda>rec_aromatic pi_stacking.
         let dist = dist_to u (center lig_aromatic) (center rec_aromatic)
         in if dist < PI_PI_CUTOFF
            then let angle_between_planes =
                       angle_between_points u (norm_vector lig_aromatic) (norm_vector rec_aromatic)
                         * 180 / pi
                 in if \<bar>angle_between_planes - 0\<bar> < 30 \<or> \<bar>angle_between_planes - 180\<bar> < 30
                    then (case projects_inside u ligand rec_aromatic (indices lig_aromatic) of
                            Inl e \<Rightarrow> Inl e
                          | Inr pi_pi \<Rightarrow>
                              (case (if pi_pi = False
                                     then projects_inside u receptor lig_aromatic (indices rec_aromatic)
                                     else Inr pi_pi) of
                                 Inl e \<Rightarrow> Inl e
                               | Inr pi_pi \<Rightarrow>
                                   if pi_pi = True
                                   then (case ring_structure_key ''STACKING_'' receptor
                                                (indices rec_aromatic) of
                                           Inl e \<Rightarrow> Inl e
                                         | Inr key \<Rightarrow>
                                             Inr (hashtable_entry_add_one pi_stacking key 1))
                                   else Inr pi_stacking))
                    else Inr pi_stacking
            else Inr pi_stacking)
       (aromatic_rings receptor)) (aromatic_rings ligand) (zero_dict stacking_keys)"

text \<open>The smallest distance between an atom of one ring and an atom of the other, from 100.\<close>

definition min_ring_dist :: "nnscore_utils \<Rightarrow> pdb \<Rightarrow> pdb \<Rightarrow> aromatic_ring \<Rightarrow> aromatic_ring \<Rightarrow> py_error + real" where
  "min_ring_dist u ligand receptor lig_aromatic rec_aromatic =
     for_each (\<lambda>ligand_ind min_dist.
         case atom_at ligand ligand_ind of
           Inl e \<Rightarrow> Inl e
         | Inr ligand_at \<Rightarrow>
             for_each (\<lambda>receptor_ind min_dist.
                 case atom_at receptor receptor_ind of
                   Inl e \<Rightarrow> Inl e
                 | Inr receptor_at \<Rightarrow>
                     let dist = dist_to u (coordinates ligand_at) (coordinates receptor_at)
                     in Inr (if dist < min_dist then dist else min_dist))
               (indices rec_aromatic) min_dist)
       (indices lig_aromatic) 100"

definition compute_pi_T :: "nnscore_utils \<Rightarrow> pdb \<Rightarrow> pdb \<Rightarrow> py_error + (string \<rightharpoonup> int)" where
  "compute_pi_T u ligand receptor =
     for_each (\<lambda>lig_aromatic. for_each (\<lambda>rec_aromatic pi_T.
         let angle_between_planes =
               angle_between_points u (norm_vector lig_aromatic) (norm_vector rec_aromatic)
                 * 180 / pi
         in if \<bar>angle_between_planes - 90\<bar> < 30 \<or> \<bar>angle_between_planes - 270\<bar> < 30
            then (case min_ring_dist u ligand receptor lig_aromatic rec_aromatic of
                    Inl e \<Rightarrow> Inl e
                  | Inr min_dist \<Rightarrow>
                      if min_dist \<le> 5
                      then let pt_on_receptor_plane =
                                 project_point_onto_plane u (center lig_aromatic)
                                   (plane_coeff rec_aromatic);
                               pt_on_ligand_plane =
                                 project_point_onto_plane u (center rec_aromatic)
                                   (plane_coeff lig_aromatic)
                           in if dist_to u pt_on_receptor_plane (center rec_aromatic)
                                   \<le> radius rec_aromatic + PI_PADDING \<or>
                                 dist_to u pt_on_ligand_plane (center lig_aromatic)
                                   \<le> radius lig_aromatic + PI_PADDING
                              then (case ring_structure_key ''T-SHAPED_'' receptor
                                           (indices rec_aromatic) of
                                      Inl e \<Rightarrow> Inl e
                                    | Inr key \<Rightarrow> Inr (hashtable_entry_add_one pi_T key 1))
                              else Inr pi_T
                      else Inr pi_T)
            else Inr pi_T)
       (aromatic_rings receptor)) (aromatic_rings ligand) (zero_dict t_shaped_keys)"

text \<open>
  \<^verbatim>\<open>compute_pi_cation\<close> has two loops: receptor rings against ligand charges (the
  key comes from the first atom of the ring), then ligand rings against receptor
  charges (the key comes from the first atom of the charged group).
\<close>

definition compute_pi_cation :: "nnscore_utils \<Rightarrow> pdb \<Rightarrow> pdb \<Rightarrow> py_error + (string \<rightharpoonup> int)" where
  "compute_pi_cation u ligand receptor =
     (case
        for_each (\<lambda>aromatic. for_each (\<lambda>charged_group pi_cation.
            if positive charged_group = True
            then if dist_to u (charged_coordinates charged_group) (center aromatic)
                      < CATION_PI_CUTOFF
                 then let charge_projected =
                            project_point_onto_plane u (charged_coordinates charged_group)
                              (plane_coeff aromatic)
                      in if dist_to u charge_projected (center aromatic)
                              < radius aromatic + PI_PADDING
                         then (case ring_structure_key ''PI-CATION_LIGAND-CHARGED_'' receptor
                                      (indices aromatic) of
                                 Inl e \<Rightarrow> Inl e
                               | Inr key \<Rightarrow> Inr (hashtable_entry_add_one pi_cation key 1))
                         else Inr pi_cation
                 else Inr pi_cation
            else Inr pi_cation)
          (charges ligand)) (aromatic_rings receptor) (zero_dict pi_cation_keys)
      of
        Inl e \<Rightarrow> Inl e
      | Inr pi_cation \<Rightarrow>
          for_each (\<lambda>aromatic. for_each (\<lambda>charged_group pi_cation.
              if positive charged_group = True
              then if dist_to u (charged_coordinates charged_group) (center aromatic)
                        < CATION_PI_CUTOFF
                   then let charge_projected =
                              project_point_onto_plane u (charged_coordinates charged_group)
                                (plane_coeff aromatic)
                        in if dist_to u charge_projected (center aromatic)
                                < radius aromatic + PI_PADDING
                           then (case ring_structure_key ''PI-CATION_RECEPTOR-CHARGED_'' receptor
                                        (charged_indices charged_group) of
                                   Inl e \<Rightarrow> Inl e
                                 | Inr key \<Rightarrow> Inr (hashtable_entry_add_one pi_cation key 1))
                           else Inr pi_cation
                   else Inr pi_cation
              else Inr pi_cation)
            (charges receptor)) (aromatic_rings ligand) pi_cation)"

text \<open>
  \<^verbatim>\<open>compute_salt_bridges\<close> takes the structure label of the first atom of the receptor
  group as it is: unlike the pi detectors it does not replace the empty label.
\<close>

definition compute_salt_bridges :: "nnscore_utils \<Rightarrow> pdb \<Rightarrow> pdb \<Rightarrow> py_error + (string \<rightharpoonup> int)" where
  "compute_salt_bridges u ligand receptor =
     for_each (\<lambda>receptor_charge. for_each (\<lambda>ligand_charge salt_bridges.
         if positive ligand_charge \<noteq> positive receptor_charge
         then if dist_to u (charged_coordinates ligand_charge)
                   (charged_coordinates receptor_charge) < SALT_BRIDGE_CUTOFF
              then (case first_index (charged_indices receptor_charge) of
                      Inl e \<Rightarrow> Inl e
                    | Inr i \<Rightarrow>
                        (case atom_at receptor i of
                           Inl e \<Rightarrow> Inl e
                         | Inr a \<Rightarrow>
                             let structure_label = atom_structure a;
                                 key = ''SALT-BRIDGE_'' @ structure_label
                             in Inr (hashtable_entry_add_one salt_bridges key 1)))
              else Inr salt_bridges
         else Inr salt_bridges)
       (charges ligand)) (charges receptor) (zero_dict salt_bridge_keys)"

section \<open>grid_featurizer.py: voxels\<close>

text \<open>
  \<^verbatim>\<open>convert_atom_to_voxel\<close> reads row \<^verbatim>\<open>atom_index\<close> of the coordinate array and
  returns a list holding one array of three integers. When \<^verbatim>\<open>voxel_width\<close> is zero the
  quotient is an infinity or NaN, whose cast to an integer numpy leaves unspecified;
  the model stops there with \<open>UnspecifiedCast\<close>.
\<close>

definition bucket :: "real \<Rightarrow> real \<Rightarrow> real \<Rightarrow> int" where
  "bucket coordinate box_width voxel_width = \<lfloor>\<bar>coordinate + box_width / 2\<bar> / voxel_width\<rfloor>"

definition convert_atom_to_voxel :: "point list \<Rightarrow> nat \<Rightarrow> real \<Rightarrow> real \<Rightarrow> py_error + int list list" where
  "convert_atom_to_voxel molecule_xyz atom_index box_width voxel_width =
     (if atom_index < length molecule_xyz
      then (case molecule_xyz ! atom_index of (x, y, z) \<Rightarrow>
              if voxel_width = 0 then Inl UnspecifiedCast
              else Inr [[bucket x box_width voxel_width,
                         bucket y box_width voxel_width,
                         bucket z box_width voxel_width]])
      else Inl IndexError)"

definition convert_atom_pair_to_voxel ::
  "point list \<times> point list \<Rightarrow> nat \<times> nat \<Rightarrow> real \<Rightarrow> real \<Rightarrow> py_error + int list list" where
  "convert_atom_pair_to_voxel molecule_xyz_tuple atom_index_pair box_width voxel_width =
     (case convert_atom_to_voxel (fst molecule_xyz_tuple) (fst atom_index_pair)
             box_width voxel_width of
        Inl e \<Rightarrow> Inl e
      | Inr first_voxels \<Rightarrow>
          (case convert_atom_to_voxel (snd molecule_xyz_tuple) (snd atom_index_pair)
                  box_width voxel_width of
             Inl e \<Rightarrow> Inl e
           | Inr second_voxels \<Rightarrow> Inr [hd first_voxels, hd second_voxels]))"

text \<open>
  The feature tensor: a shape and the entries inside it, of numpy type \<^verbatim>\<open>int8\<close>
  (addition wraps). An index into an axis of length \<open>n\<close> is valid from \<open>-n\<close> to
  \<open>n - 1\<close>, negative indices counting from the end, as numpy has it.
\<close>

record tensor4 =
  shape :: "nat \<times> nat \<times> nat \<times> nat"
  entry :: "nat \<times> nat \<times> nat \<times> nat \<Rightarrow> 8 word"

definition zeros :: "nat \<times> nat \<times> nat \<times> nat \<Rightarrow> tensor4" where
  "zeros dims = \<lparr>shape = dims, entry = (\<lambda>_. 0)\<rparr>"

definition axis_index :: "nat \<Rightarrow> int \<Rightarrow> py_error + nat" where
  "axis_index n i =
     (if 0 \<le> i \<and> i < int n then Inr (nat i)
      else if - int n \<le> i \<and> i < 0 then Inr (nat (i + int n))
      else Inl IndexError)"

definition array_get :: "int list \<Rightarrow> nat \<Rightarrow> py_error + int" where
  "array_get a i = (if i < length a then Inr (a ! i) else Inl IndexError)"

definition bind_err :: "'e + 'a \<Rightarrow> ('a \<Rightarrow> 'e + 'b) \<Rightarrow> 'e + 'b" where
  "bind_err m f = (case m of Inl e \<Rightarrow> Inl e | Inr x \<Rightarrow> f x)"

definition tensor_iadd :: "tensor4 \<Rightarrow> int \<Rightarrow> int \<Rightarrow> int \<Rightarrow> int \<Rightarrow> 8 word \<Rightarrow> py_error + tensor4" where
  "tensor_iadd t i j k c v =
     (case shape t of (n0, n1, n2, n3) \<Rightarrow>
        bind_err (axis_index n0 i) (\<lambda>i'.
        bind_err (axis_index n1 j) (\<lambda>j'.
        bind_err (axis_index n2 k) (\<lambda>k'.
        bind_err (axis_index n3 c) (\<lambda>c'.
          Inr (t\<lparr>entry := (entry t)((i', j', k', c') := entry t (i', j', k', c') + v)\<rparr>))))))"

text \<open>
  The values of the feature dictionaries: fragment strings (ECFP, SYBYL), pairs of
  fragment strings (SPLIF) and counts (pi stacking, cation-pi).
\<close>

datatype feature = Text string | TextPair string string | Count int

record grid_featurizer =
  box_width :: real
  voxel_width :: real

definition voxels_per_edge :: "grid_featurizer \<Rightarrow> real" where
  "voxels_per_edge self = box_width self / voxel_width self"

text \<open>
  The three statements that \<^verbatim>\<open>voxelize\<close> runs under \<^verbatim>\<open>try\<close>. The subscripts of the
  target are evaluated from left to right before the entry is read. The statement of
  the dictionary mode without a hash function reads \<^verbatim>\<open>voxel[3]\<close>.
\<close>

definition increment_hashed ::
  "tensor4 \<Rightarrow> int list \<Rightarrow> (feature \<Rightarrow> nat option \<Rightarrow> py_error + int) \<Rightarrow> feature \<Rightarrow> nat option \<Rightarrow>
   py_error + tensor4" where
  "increment_hashed feature_tensor voxel hash_function features channel_power =
     bind_err (array_get voxel 0) (\<lambda>i.
     bind_err (array_get voxel 1) (\<lambda>j.
     bind_err (array_get voxel 2) (\<lambda>k.
     bind_err (hash_function features channel_power) (\<lambda>c.
       tensor_iadd feature_tensor i j k c 1))))"

definition increment_by_features :: "tensor4 \<Rightarrow> int list \<Rightarrow> feature \<Rightarrow> py_error + tensor4" where
  "increment_by_features feature_tensor voxel features =
     bind_err (array_get voxel 0) (\<lambda>i.
     bind_err (array_get voxel 1) (\<lambda>j.
     bind_err (array_get voxel 3) (\<lambda>k.
       case features of
         Count n \<Rightarrow> tensor_iadd feature_tensor i j k 0 (word_of_int n)
       | _ \<Rightarrow> Inl TypeError)))"

definition increment_listed :: "tensor4 \<Rightarrow> int list \<Rightarrow> py_error + tensor4" where
  "increment_listed feature_tensor voxel =
     bind_err (array_get voxel 0) (\<lambda>i.
     bind_err (array_get voxel 1) (\<lambda>j.
     bind_err (array_get voxel 2) (\<lambda>k.
       tensor_iadd feature_tensor i j k 0 1)))"

text \<open>\<^verbatim>\<open>try: ... except: continue\<close> keeps the tensor as it was when the statement raised.\<close>

definition try_continue :: "tensor4 \<Rightarrow> py_error + tensor4 \<Rightarrow> tensor4" where
  "try_continue feature_tensor attempt =
     (case attempt of Inl e \<Rightarrow> feature_tensor | Inr updated \<Rightarrow> updated)"

text \<open>
  \<^verbatim>\<open>voxelize\<close>. The dictionary is listed in iteration order. \<^verbatim>\<open>get_voxels\<close> is called
  outside the \<^verbatim>\<open>try\<close>, so its exceptions propagate. \<^verbatim>\<open>np.zeros\<close> truncates the
  float \<^verbatim>\<open>voxels_per_edge\<close> and refuses a negative dimension.
\<close>

definition voxelize ::
  "grid_featurizer \<Rightarrow> ('c \<Rightarrow> 'k \<Rightarrow> real \<Rightarrow> real \<Rightarrow> py_error + int list list) \<Rightarrow>
   (feature \<Rightarrow> nat option \<Rightarrow> py_error + int) option \<Rightarrow> 'c \<Rightarrow>
   ('k \<times> feature) list option \<Rightarrow> 'k list option \<Rightarrow> nat option \<Rightarrow> nat \<Rightarrow> py_error + tensor4" where
  "voxelize self get_voxels hash_function coords feature_dict feature_list
     channel_power nb_channel =
     (let nb_channel =
            (case channel_power of
               None \<Rightarrow> nb_channel
             | Some p \<Rightarrow> if p = 0 then 1 else 2 ^ p);
          edge = \<lfloor>voxels_per_edge self\<rfloor>
      in if edge < 0 then Inl ValueError
         else
           let feature_tensor = zeros (nat edge, nat edge, nat edge, nb_channel)
           in case feature_dict of
                Some d \<Rightarrow>
                  for_each (\<lambda>(key, features) feature_tensor.
                      case get_voxels coords key (box_width self) (voxel_width self) of
                        Inl e \<Rightarrow> Inl e
                      | Inr voxels \<Rightarrow>
                          Inr (fold (\<lambda>voxel feature_tensor.
                                 try_continue feature_tensor
                                   (case hash_function of
                                      Some h \<Rightarrow>
                                        increment_hashed feature_tensor voxel h features channel_power
                                    | None \<Rightarrow>
                                        increment_by_features feature_tensor voxel features))
                               voxels feature_tensor))
                    d feature_tensor
              | None \<Rightarrow>
                  (case feature_list of
                     Some l \<Rightarrow>
                       for_each (\<lambda>key feature_tensor.
                           case get_voxels coords key (box_width self) (voxel_width self) of
                             Inl e \<Rightarrow> Inl e
                           | Inr voxels \<Rightarrow>
                               Inr (fold (\<lambda>voxel feature_tensor.
                                      try_continue feature_tensor
                                        (increment_listed feature_tensor voxel))
                                    voxels feature_tensor))
                         l feature_tensor
                   | None \<Rightarrow> Inr feature_tensor))"

section \<open>grid_featurizer.py: vectors\<close>

fun map_err :: "('a \<Rightarrow> 'e + 'b) \<Rightarrow> 'a list \<Rightarrow> 'e + 'b list" where
  "map_err f [] = Inr []"
| "map_err f (x # xs) =
     (case f x of
        Inl e \<Rightarrow> Inl e
      | Inr y \<Rightarrow> (case map_err f xs of Inl e \<Rightarrow> Inl e | Inr ys \<Rightarrow> Inr (y # ys)))"

text \<open>
  \<^verbatim>\<open>vectorize\<close>. The statement \<^verbatim>\<open>feature_vector[on_channels] += 1\<close> indexes with a
  list: numpy reads the entries at the listed positions, adds one to each value read and
  writes the results back, so a position that is listed twice receives the same value
  twice. The list mode adds the length of the list to entry 0.
\<close>

definition vectorize ::
  "(feature \<Rightarrow> nat \<Rightarrow> py_error + int) \<Rightarrow> ('k \<times> feature) list option \<Rightarrow> 'a list option \<Rightarrow> nat \<Rightarrow>
   py_error + real list" where
  "vectorize hash_function feature_dict feature_list channel_power =
     (let feature_vector = replicate (2 ^ channel_power) (0::real)
      in case feature_dict of
           Some d \<Rightarrow>
             bind_err (map_err (\<lambda>(key, feature). hash_function feature channel_power) d)
               (\<lambda>on_channels.
             bind_err (map_err (axis_index (length feature_vector)) on_channels)
               (\<lambda>positions.
                Inr (fold (\<lambda>p v. v[p := feature_vector ! p + 1]) positions feature_vector)))
         | None \<Rightarrow>
             (case feature_list of
                Some l \<Rightarrow> Inr (feature_vector[0 := feature_vector ! 0 + real (length l)])
              | None \<Rightarrow> Inr feature_vector))"

text \<open>
  The reading of the specification, for comparison: every feature of the dictionary adds
  one at the position it hashes to.
\<close>

definition vectorize_counting ::
  "(feature \<Rightarrow> nat \<Rightarrow> py_error + int) \<Rightarrow> ('k \<times> feature) list \<Rightarrow> nat \<Rightarrow> py_error + real list" where
  "vectorize_counting hash_function d channel_power =
     (let feature_vector = replicate (2 ^ channel_power) (0::real)
      in bind_err (map_err (\<lambda>(key, feature). hash_function feature channel_power) d)
           (\<lambda>on_channels.
         bind_err (map_err (axis_index (length feature_vector)) on_channels)
           (\<lambda>positions. Inr (fold (\<lambda>p v. v[p := v ! p + 1]) positions feature_vector))))"

section \<open>Notions used to state the results\<close>

text \<open>
  \<open>record_all\<close> runs \<^verbatim>\<open>hashtable_entry_add_one\<close> over a list of keys and amounts.
  \<open>tally vocabulary recorded\<close> is the dictionary of a counting detector as the
  specification describes it: the pre-declared keys and the keys recorded by an
  interaction, each with the number of interactions recorded under it.
\<close>

definition record_all :: "('k \<times> 'a) list \<Rightarrow> ('k \<rightharpoonup> 'a::plus) \<Rightarrow> ('k \<rightharpoonup> 'a)" where
  "record_all evs d = fold (\<lambda>(key, toadd) d. hashtable_entry_add_one d key toadd) evs d"

definition tally :: "'k list \<Rightarrow> 'k list \<Rightarrow> ('k \<rightharpoonup> int)" where
  "tally vocabulary recorded =
     (\<lambda>k. if k \<in> set vocabulary \<or> k \<in> set recorded
          then Some (int (count_list recorded k)) else None)"

text \<open>
  Modelled from the spec: the module \<^verbatim>\<open>nnscore_utils\<close> (\<^verbatim>\<open>Point.dist_to\<close> and the class
  \<^verbatim>\<open>MathFunctions\<close>) is missing from the sources. The theorems below hold for every
  value of the parameter \<open>u\<close>; the examples instantiate it with the geometry primitives
  of section 4.1 of the specification, over the real numbers: the Euclidean distance,
  the angle between two vectors (the arccos of the dot product of the normalised
  vectors, and \<open>\<pi>\<close> when a vector has zero norm and so no normalisation), the angle at
  the middle one of three points, and the orthogonal projection of a point onto the plane
  \<open>a x + b y + c z = d\<close>.
\<close>

definition euclidean_distance :: "point \<Rightarrow> point \<Rightarrow> real" where
  "euclidean_distance p q =
     (case (p, q) of ((x1, y1, z1), (x2, y2, z2)) \<Rightarrow>
        sqrt ((x1 - x2)\<^sup>2 + (y1 - y2)\<^sup>2 + (z1 - z2)\<^sup>2))"

definition vector_angle :: "point \<Rightarrow> point \<Rightarrow> real" where
  "vector_angle v w =
     (case (v, w) of ((x1, y1, z1), (x2, y2, z2)) \<Rightarrow>
        let n1 = sqrt (x1\<^sup>2 + y1\<^sup>2 + z1\<^sup>2);
            n2 = sqrt (x2\<^sup>2 + y2\<^sup>2 + z2\<^sup>2)
        in if n1 = 0 \<or> n2 = 0 then pi
           else arccos (x1 / n1 * (x2 / n2) + y1 / n1 * (y2 / n2) + z1 / n1 * (z2 / n2)))"

definition vector_from :: "point \<Rightarrow> point \<Rightarrow> point" where
  "vector_from q p =
     (case (p, q) of ((x1, y1, z1), (x2, y2, z2)) \<Rightarrow> (x1 - x2, y1 - y2, z1 - z2))"

definition orthogonal_projection :: "point \<Rightarrow> real \<times> real \<times> real \<times> real \<Rightarrow> point" where
  "orthogonal_projection p plane =
     (case (p, plane) of ((s, v, w), (a, b, c, d)) \<Rightarrow>
        let t = (d - a * s - b * v - c * w) / (a * a + b * b + c * c)
        in (s + a * t, v + b * t, w + c * t))"

definition example_utils :: nnscore_utils where
  "example_utils =
     \<lparr>dist_to = euclidean_distance,
      angle_between_three_points = (\<lambda>p1 p2 p3. vector_angle (vector_from p2 p1) (vector_from p2 p3)),
      angle_between_points = vector_angle,
      project_point_onto_plane = orthogonal_projection\<rparr>"

definition example_atom :: "point \<Rightarrow> string \<Rightarrow> string \<Rightarrow> real \<Rightarrow> string \<Rightarrow> string \<Rightarrow> atom" where
  "example_atom position el atype q label residue_part =
     \<lparr>coordinates = position, element = el, atomtype = atype, charge = q,
      atom_structure = label, comment = '''', side_chain_or_backbone = residue_part\<rparr>"

definition example_molecule :: "atom list \<Rightarrow> aromatic_ring list \<Rightarrow> charged list \<Rightarrow> pdb" where
  "example_molecule atom_list rings groups =
     \<lparr>all_atoms = zip [0 ..< length atom_list] atom_list, aromatic_rings = rings,
      charges = groups, rotatable_bonds_count = 0\<rparr>"

text \<open>
  The atom that \<^verbatim>\<open>mol.all_atoms[idxs[0]]\<close> reads, as a list: empty when the index list is
  empty or its first index is not a key of the dictionary. The structure label that the
  pi detectors put into their keys replaces the empty label by \<^verbatim>\<open>OTHER\<close>.
\<close>

definition first_atoms :: "pdb \<Rightarrow> nat list \<Rightarrow> atom list" where
  "first_atoms mol idxs =
     (case idxs of
        [] \<Rightarrow> []
      | i # _ \<Rightarrow> (case map_of (all_atoms mol) i of None \<Rightarrow> [] | Some a \<Rightarrow> [a]))"

definition structure_or_other :: "atom \<Rightarrow> string" where
  "structure_or_other a = (if atom_structure a = '''' then ''OTHER'' else atom_structure a)"

text \<open>
  A molecule is well formed when the indices of its rings and charged groups are keys of
  its atom dictionary; a group is anchored when it has a first index.
\<close>

definition indices_known :: "pdb \<Rightarrow> nat list \<Rightarrow> bool" where
  "indices_known mol idxs = list_all (\<lambda>i. map_of (all_atoms mol) i \<noteq> None) idxs"

definition rings_known :: "pdb \<Rightarrow> bool" where
  "rings_known mol = list_all (\<lambda>ring. indices_known mol (indices ring)) (aromatic_rings mol)"

definition rings_anchored :: "pdb \<Rightarrow> bool" where
  "rings_anchored mol = list_all (\<lambda>ring. indices ring \<noteq> []) (aromatic_rings mol)"

definition charges_anchored :: "pdb \<Rightarrow> bool" where
  "charges_anchored mol =
     list_all (\<lambda>group. charged_indices group \<noteq> [] \<and> indices_known mol (charged_indices group))
       (charges mol)"

text \<open>
  A hash function for the examples of \<^verbatim>\<open>vectorize\<close> and \<^verbatim>\<open>voxelize\<close> (the source
  passes \<^verbatim>\<open>hash_ecfp\<close>, an MD5 digest reduced modulo \<open>2 ^ power\<close>, which is a
  parameter here): the length of the fragment string reduced modulo \<open>2 ^ power\<close>.
\<close>

definition example_hash :: "feature \<Rightarrow> nat \<Rightarrow> py_error + int" where
  "example_hash f bits =
     (case f of
        Text s \<Rightarrow> Inr (int (length s) mod 2 ^ bits)
      | TextPair s t \<Rightarrow> Inr (int (length s + length t) mod 2 ^ bits)
      | Count n \<Rightarrow> Inl TypeError)"

text \<open>
  The interactions that the detectors count (section 4.3 of the specification), each
  detector as the list of the keys of its interactions, one entry for every interaction,
  in the order of the loops. Ring atoms and first atoms are looked up in the atom
  dictionary of their molecule.
\<close>

definition contact_interactions :: "nnscore_utils \<Rightarrow> pdb \<Rightarrow> pdb \<Rightarrow> real \<Rightarrow> string list" where
  "contact_interactions u ligand receptor cutoff =
     [atom_pair_key (atomtype l) (atomtype r).
        l \<leftarrow> atoms ligand, r \<leftarrow> atoms receptor,
        dist_to u (coordinates l) (coordinates r) < cutoff]"

definition hydrophobic_interactions :: "nnscore_utils \<Rightarrow> pdb \<Rightarrow> pdb \<Rightarrow> string list" where
  "hydrophobic_interactions u ligand receptor =
     [side_chain_or_backbone r @ ''_'' @ atom_structure r.
        l \<leftarrow> atoms ligand, r \<leftarrow> atoms receptor,
        dist_to u (coordinates l) (coordinates r) < 4,
        element l = ''C'' \<and> element r = ''C'']"

definition flexibility_interactions :: "nnscore_utils \<Rightarrow> pdb \<Rightarrow> pdb \<Rightarrow> string list" where
  "flexibility_interactions u ligand receptor =
     [side_chain_or_backbone r @ ''_'' @ atom_structure r.
        l \<leftarrow> atoms ligand, r \<leftarrow> atoms receptor,
        dist_to u (coordinates l) (coordinates r) < 4]"

definition hydrogen_bond_interactions :: "nnscore_utils \<Rightarrow> pdb \<Rightarrow> pdb \<Rightarrow> string list" where
  "hydrogen_bond_interactions u ligand receptor =
     [''HDONOR-'' @ donor @ ''_'' @ side_chain_or_backbone r @ ''_'' @ atom_structure r.
        l \<leftarrow> atoms ligand, r \<leftarrow> atoms receptor,
        element l \<in> {''O'', ''N'', ''F''} \<and> element r \<in> {''O'', ''N'', ''F''} \<and>
        dist_to u (coordinates l) (coordinates r) < 4,
        (donor, h) \<leftarrow>
           [(''LIGAND'', h). h \<leftarrow> atoms ligand, element h = ''H'' \<and>
              dist_to u (coordinates h) (coordinates l) < 1.3] @
           [(''RECEPTOR'', h). h \<leftarrow> atoms receptor, element h = ''H'' \<and>
              dist_to u (coordinates h) (coordinates r) < 1.3],
        \<bar>180 - angle_between_three_points u (coordinates l) (coordinates h) (coordinates r)
                * 180 / pi\<bar> \<le> 40]"

definition stacking_interactions :: "nnscore_utils \<Rightarrow> pdb \<Rightarrow> pdb \<Rightarrow> string list" where
  "stacking_interactions u ligand receptor =
     [''STACKING_'' @ structure_or_other first_atom.
        lr \<leftarrow> aromatic_rings ligand, rr \<leftarrow> aromatic_rings receptor,
        dist_to u (center lr) (center rr) < 7.5 \<and>
        (\<bar>angle_between_points u (norm_vector lr) (norm_vector rr) * 180 / pi - 0\<bar> < 30 \<or>
         \<bar>angle_between_points u (norm_vector lr) (norm_vector rr) * 180 / pi - 180\<bar> < 30) \<and>
        ((\<exists>i \<in> set (indices lr). \<exists>a. map_of (all_atoms ligand) i = Some a \<and>
            dist_to u (project_point_onto_plane u (coordinates a) (plane_coeff rr)) (center rr)
              \<le> radius rr + 0.75) \<or>
         (\<exists>i \<in> set (indices rr). \<exists>a. map_of (all_atoms receptor) i = Some a \<and>
            dist_to u (project_point_onto_plane u (coordinates a) (plane_coeff lr)) (center lr)
              \<le> radius lr + 0.75)),
        first_atom \<leftarrow> first_atoms receptor (indices rr)]"

definition t_shaped_interactions :: "nnscore_utils \<Rightarrow> pdb \<Rightarrow> pdb \<Rightarrow> string list" where
  "t_shaped_interactions u ligand receptor =
     [''T-SHAPED_'' @ structure_or_other first_atom.
        lr \<leftarrow> aromatic_rings ligand, rr \<leftarrow> aromatic_rings receptor,
        (\<bar>angle_between_points u (norm_vector lr) (norm_vector rr) * 180 / pi - 90\<bar> < 30 \<or>
         \<bar>angle_between_points u (norm_vector lr) (norm_vector rr) * 180 / pi - 270\<bar> < 30) \<and>
        (\<exists>i \<in> set (indices lr). \<exists>a. map_of (all_atoms ligand) i = Some a \<and>
           (\<exists>j \<in> set (indices rr). \<exists>b. map_of (all_atoms receptor) j = Some b \<and>
              dist_to u (coordinates a) (coordinates b) \<le> 5)) \<and>
        (dist_to u (project_point_onto_plane u (center lr) (plane_coeff rr)) (center rr)
           \<le> radius rr + 0.75 \<or>
         dist_to u (project_point_onto_plane u (center rr) (plane_coeff lr)) (center lr)
           \<le> radius lr + 0.75),
        first_atom \<leftarrow> first_atoms receptor (indices rr)]"

definition pi_cation_interactions :: "nnscore_utils \<Rightarrow> pdb \<Rightarrow> pdb \<Rightarrow> string list" where
  "pi_cation_interactions u ligand receptor =
     [''PI-CATION_LIGAND-CHARGED_'' @ structure_or_other first_atom.
        ring \<leftarrow> aromatic_rings receptor, cation \<leftarrow> charges ligand,
        positive cation \<and>
        dist_to u (charged_coordinates cation) (center ring) < 6 \<and>
        dist_to u (project_point_onto_plane u (charged_coordinates cation) (plane_coeff ring))
          (center ring) < radius ring + 0.75,
        first_atom \<leftarrow> first_atoms receptor (indices ring)] @
     [''PI-CATION_RECEPTOR-CHARGED_'' @ structure_or_other first_atom.
        ring \<leftarrow> aromatic_rings ligand, cation \<leftarrow> charges receptor,
        positive cation \<and>
        dist_to u (charged_coordinates cation) (center ring) < 6 \<and>
        dist_to u (project_point_onto_plane u (charged_coordinates cation) (plane_coeff ring))
          (center ring) < radius ring + 0.75,
        first_atom \<leftarrow> first_atoms receptor (charged_indices cation)]"

definition salt_bridge_interactions :: "nnscore_utils \<Rightarrow> pdb \<Rightarrow> pdb \<Rightarrow> string list" where
  "salt_bridge_interactions u ligand receptor =
     [''SALT-BRIDGE_'' @ atom_structure first_atom.
        rc \<leftarrow> charges receptor, lc \<leftarrow> charges ligand,
        positive lc \<noteq> positive rc \<and>
        dist_to u (charged_coordinates lc) (charged_coordinates rc) < 5.5,
        first_atom \<leftarrow> first_atoms receptor (charged_indices rc)]"

text \<open>
  The labels of a ligand and a receptor are the declared ones when every atom type is
  one of \<^verbatim>\<open>Binana.atom_types\<close> and every receptor atom is a side-chain or backbone
  atom of an alpha, beta or other structure.
\<close>

definition declared_labels :: "pdb \<Rightarrow> pdb \<Rightarrow> bool" where
  "declared_labels ligand receptor \<longleftrightarrow>
     list_all (\<lambda>a. atomtype a \<in> set atom_types) (atoms ligand @ atoms receptor) \<and>
     list_all (\<lambda>a. side_chain_or_backbone a \<in> {''SIDECHAIN'', ''BACKBONE''} \<and>
                   atom_structure a \<in> {''ALPHA'', ''BETA'', ''OTHER''}) (atoms receptor)"

text \<open>
  A dictionary holds a vocabulary and the keys found when its keys are the pre-declared
  ones together with the found ones, and every pre-declared key that was not found has
  the value zero.
\<close>

definition keys_are :: "'k list \<Rightarrow> 'k list \<Rightarrow> ('k \<rightharpoonup> 'v::zero) \<Rightarrow> bool" where
  "keys_are vocabulary found d \<longleftrightarrow>
     dom d = set vocabulary \<union> set found \<and>
     (\<forall>k \<in> set vocabulary. k \<notin> set found \<longrightarrow> d k = Some 0)"

text \<open>
  A ligand and a receptor for the examples: one aromatic carbon each, three units apart,
  each in a ring around the \<open>z\<close> axis (the planes \<open>z = 0\<close> and \<open>z = 3\<close>), the ligand
  with a positive group and the receptor with a negative group at the ring center.
\<close>

definition example_ligand :: pdb where
  "example_ligand =
     example_molecule [example_atom (1, 0, 0) ''C'' ''A'' 1 '''' '''']
       [\<lparr>center = (0, 0, 0), plane_coeff = (0, 0, 1, 0), indices = [0], radius = 1.4\<rparr>]
       [\<lparr>charged_coordinates = (0, 0, 0), positive = True, charged_indices = [0]\<rparr>]"

definition example_receptor :: pdb where
  "example_receptor =
     example_molecule [example_atom (1, 0, 3) ''C'' ''A'' (- 1) ''ALPHA'' ''SIDECHAIN'']
       [\<lparr>center = (0, 0, 3), plane_coeff = (0, 0, 1, 3), indices = [0], radius = 1.4\<rparr>]
       [\<lparr>charged_coordinates = (0, 0, 3), positive = False, charged_indices = [0]\<rparr>]"


section \<open>Dictionaries under repeated increments\<close>

lemma zero_dict_lookup:
  "(zero_dict keys :: 'k \<rightharpoonup> 'v::zero) k = (if k \<in> set keys then Some 0 else None)"
proof -
  have "fold (\<lambda>key d. d(key \<mapsto> 0)) keys d k = (if k \<in> set keys then Some 0 else d k)"
    for d :: "'k \<rightharpoonup> 'v::zero"
    by (induction keys arbitrary: d) auto
  then show ?thesis by (simp add: zero_dict_def)
qed

lemma dom_zero_dict: "dom (zero_dict keys) = set keys"
  by (auto simp: zero_dict_lookup dom_def)

lemma record_all_simps [simp]:
  "record_all [] d = d"
  "record_all ((k, w) # evs) d = record_all evs (hashtable_entry_add_one d k w)"
  "record_all (evs @ evs') d = record_all evs' (record_all evs d)"
  by (simp_all add: record_all_def)

lemma filter_key_absent: "k \<notin> fst ` set evs \<Longrightarrow> filter (\<lambda>e. fst e = k) evs = []"
  by (auto simp: filter_empty_conv)

lemma record_all_lookup:
  fixes d :: "'k \<rightharpoonup> 'a::monoid_add"
  shows "record_all evs d k =
    (if k \<in> fst ` set evs
     then Some ((case d k of None \<Rightarrow> 0 | Some v \<Rightarrow> v) +
                sum_list (map snd (filter (\<lambda>e. fst e = k) evs)))
     else d k)"
proof (induction evs arbitrary: d)
  case Nil
  then show ?case by simp
next
  case (Cons e evs)
  obtain k' w where e: "e = (k', w)" by (cases e)
  show ?case
    unfolding e record_all_simps Cons.IH
    by (auto simp: hashtable_entry_add_one_def add.assoc filter_key_absent split: option.splits)
qed

lemma record_all_zero_dict:
  fixes evs :: "('k \<times> 'a::monoid_add) list"
  shows "record_all evs (zero_dict keys) k =
    (if k \<in> set keys \<or> k \<in> fst ` set evs
     then Some (sum_list (map snd (filter (\<lambda>e. fst e = k) evs)))
     else None)"
  by (simp add: record_all_lookup zero_dict_lookup filter_key_absent)

lemma sum_list_ones:
  "sum_list (map snd (filter (\<lambda>e. fst e = k) (map (\<lambda>k. (k, 1::int)) ks))) = int (count_list ks k)"
  by (induction ks) auto

lemma record_all_tally: "record_all (map (\<lambda>k. (k, 1)) ks) (zero_dict V) = tally V ks"
  by (rule ext) (simp add: record_all_zero_dict tally_def sum_list_ones image_iff)

lemma fold_concat_record:
  "fold (\<lambda>x d. record_all (evs x) d) xs d = record_all (concat (map evs xs)) d"
  by (induction xs arbitrary: d) auto

text \<open>
  A loop whose body records a list of keys that depends on the element only records the
  concatenation of the lists. Nested loops are handled by applying the rule twice.
\<close>

lemma fold_events_record:
  assumes "\<And>x d. x \<in> set xs \<Longrightarrow> body x d = record_all (evs x) d"
  shows "fold body xs d = record_all (concat (map evs xs)) d"
proof -
  have "fold body xs d = fold (\<lambda>x d. record_all (evs x) d) xs d" for d
    using assms by (induction xs arbitrary: d) auto
  then show ?thesis
    by (simp add: fold_concat_record)
qed

lemma fold_keys_record:
  assumes "\<And>x d. x \<in> set xs \<Longrightarrow> body x d = record_all (map (\<lambda>k. (k, 1::int)) (ks x)) d"
  shows "fold body xs d = record_all (map (\<lambda>k. (k, 1)) (concat (map ks xs))) d"
  using fold_events_record [of xs body "\<lambda>x. map (\<lambda>k. (k, 1)) (ks x)" d] assms
  by (simp add: map_concat comp_def)

lemma fold_pair_split:
  "fold (\<lambda>x p. (f x (fst p), g x (snd p))) xs p = (fold f xs (fst p), fold g xs (snd p))"
  by (induction xs arbitrary: p) auto

text \<open>The same for a loop whose body can raise.\<close>

lemma for_each_events_record:
  assumes "\<And>x d. x \<in> set xs \<Longrightarrow>
     body x d = (case evs x of Inl e \<Rightarrow> Inl e | Inr es \<Rightarrow> Inr (record_all es d))"
  shows "for_each body xs d =
     (case map_err evs xs of Inl e \<Rightarrow> Inl e | Inr ess \<Rightarrow> Inr (record_all (concat ess) d))"
  using assms
proof (induction xs arbitrary: d)
  case Nil
  then show ?case by simp
next
  case (Cons x xs)
  have b: "body x d = (case evs x of Inl e \<Rightarrow> Inl e | Inr es \<Rightarrow> Inr (record_all es d))" for d
    using Cons.prems by simp
  have ih: "for_each body xs d =
     (case map_err evs xs of Inl e \<Rightarrow> Inl e | Inr ess \<Rightarrow> Inr (record_all (concat ess) d))" for d
    using Cons.IH Cons.prems by simp
  show ?case
    by (simp add: b ih split: sum.splits)
qed

lemma map_err_InrD: "map_err f xs = Inr ys \<Longrightarrow> map f xs = map Inr ys"
  by (induction xs arbitrary: ys) (auto split: sum.splits)

lemma map_err_InrI: "map f xs = map Inr ys \<Longrightarrow> map_err f xs = Inr ys"
proof (induction xs arbitrary: ys)
  case Nil
  then show ?case by simp
next
  case (Cons x xs)
  then obtain y ys' where ys: "ys = y # ys'" by (cases ys) auto
  with Cons.prems have "f x = Inr y" and "map f xs = map Inr ys'" by simp_all
  with Cons.IH [of ys'] ys show ?case by simp
qed

lemma map_err_Inr_iff: "map_err f xs = Inr ys \<longleftrightarrow> map f xs = map Inr ys"
  using map_err_InrD map_err_InrI by blast

lemma map_err_Inr:
  assumes "\<And>x. x \<in> set xs \<Longrightarrow> f x = Inr (g x)"
  shows "map_err f xs = Inr (map g xs)"
  using assms by (simp add: map_err_Inr_iff)

lemma count_list_le_mono:
  "(\<And>x. x \<in> set xs \<Longrightarrow> P x \<Longrightarrow> Q x) \<Longrightarrow> length (filter P xs) \<le> length (filter Q xs)"
  by (induction xs) auto

text \<open>
  Two nested loops whose body can raise: the run succeeds exactly when every unit
  succeeds, and then records what the units record.
\<close>

lemma nested_map_err_Inr:
  assumes "\<And>x y. x \<in> set xs \<Longrightarrow> y \<in> set ys \<Longrightarrow> ev x y = Inr (g x y)"
  shows "map_err (\<lambda>x. case map_err (ev x) ys of Inl e \<Rightarrow> Inl e | Inr ess \<Rightarrow> Inr (concat ess)) xs =
     Inr (map (\<lambda>x. concat (map (g x) ys)) xs)"
proof (rule map_err_Inr)
  fix x assume "x \<in> set xs"
  then have "map_err (ev x) ys = Inr (map (g x) ys)"
    by (intro map_err_Inr assms)
  then show "(case map_err (ev x) ys of Inl e \<Rightarrow> Inl e | Inr ess \<Rightarrow> Inr (concat ess)) =
      Inr (concat (map (g x) ys))"
    by simp
qed

lemma map_err_Inr_all: "map_err f xs = Inr ys \<Longrightarrow> x \<in> set xs \<Longrightarrow> \<exists>y. f x = Inr y"
  by (induction xs arbitrary: ys) (auto split: sum.splits)

lemma nested_map_err_all:
  assumes "map_err (\<lambda>x. case map_err (ev x) ys of Inl e \<Rightarrow> Inl e | Inr ess \<Rightarrow> Inr (concat ess)) xs =
     Inr ess"
    and "x \<in> set xs" and "y \<in> set ys"
  shows "\<exists>es. ev x y = Inr es"
proof -
  from map_err_Inr_all [OF assms(1,2)]
  obtain es where "map_err (ev x) ys = Inr es"
    by (auto split: sum.splits)
  from map_err_Inr_all [OF this assms(3)] show ?thesis .
qed

lemma nested_map_err_keys:
  assumes ess: "map_err (\<lambda>x. case map_err (ev x) ys of Inl e \<Rightarrow> Inl e | Inr ess \<Rightarrow> Inr (concat ess)) xs =
      Inr ess"
    and ev: "\<And>x y es. x \<in> set xs \<Longrightarrow> y \<in> set ys \<Longrightarrow> ev x y = Inr es \<Longrightarrow>
      es = map (\<lambda>k. (k, 1::int)) (ks x y)"
  shows "concat ess = map (\<lambda>k. (k, 1)) (concat (map (\<lambda>x. concat (map (ks x) ys)) xs))"
proof -
  have "ev x y = Inr (map (\<lambda>k. (k, 1)) (ks x y))" if "x \<in> set xs" "y \<in> set ys" for x y
    using nested_map_err_all [OF ess that] ev [OF that] by auto
  from nested_map_err_Inr [of xs ys ev "\<lambda>x y. map (\<lambda>k. (k, 1)) (ks x y)", OF this] ess
  have "ess = map (\<lambda>x. concat (map (\<lambda>y. map (\<lambda>k. (k, 1)) (ks x y)) ys)) xs"
    by simp
  then show ?thesis
    by (simp add: map_concat comp_def)
qed

lemma nested_run_partial:
  assumes run: "run =
      (case map_err (\<lambda>x. case map_err (ev x) ys of Inl e \<Rightarrow> Inl e | Inr ess \<Rightarrow> Inr (concat ess)) xs of
         Inl e \<Rightarrow> Inl e | Inr ess \<Rightarrow> Inr (record_all (concat ess) (zero_dict V)))"
    and ev: "\<And>x y es. x \<in> set xs \<Longrightarrow> y \<in> set ys \<Longrightarrow> ev x y = Inr es \<Longrightarrow>
      es = map (\<lambda>k. (k, 1::int)) (ks x y)"
    and ok: "run = Inr d"
  shows "d = tally V (concat (map (\<lambda>x. concat (map (ks x) ys)) xs))"
proof -
  from run ok obtain ess where
    ess: "map_err (\<lambda>x. case map_err (ev x) ys of Inl e \<Rightarrow> Inl e | Inr ess \<Rightarrow> Inr (concat ess)) xs =
      Inr ess"
    and d: "d = record_all (concat ess) (zero_dict V)"
    by (auto split: sum.splits)
  have "ev x y = Inr (map (\<lambda>k. (k, 1)) (ks x y))" if "x \<in> set xs" "y \<in> set ys" for x y
    using nested_map_err_all [OF ess that] ev [OF that] by auto
  from nested_map_err_Inr [of xs ys ev "\<lambda>x y. map (\<lambda>k. (k, 1)) (ks x y)", OF this] ess
  have "ess = map (\<lambda>x. concat (map (\<lambda>y. map (\<lambda>k. (k, 1)) (ks x y)) ys)) xs"
    by simp
  then have "concat ess = map (\<lambda>k. (k, 1)) (concat (map (\<lambda>x. concat (map (ks x) ys)) xs))"
    by (simp add: map_concat comp_def)
  with d show ?thesis
    by (simp add: record_all_tally)
qed

lemma nested_run_total:
  assumes run: "run =
      (case map_err (\<lambda>x. case map_err (ev x) ys of Inl e \<Rightarrow> Inl e | Inr ess \<Rightarrow> Inr (concat ess)) xs of
         Inl e \<Rightarrow> Inl e | Inr ess \<Rightarrow> Inr (record_all (concat ess) (zero_dict V)))"
    and ev: "\<And>x y es. x \<in> set xs \<Longrightarrow> y \<in> set ys \<Longrightarrow> ev x y = Inr es \<Longrightarrow>
      es = map (\<lambda>k. (k, 1::int)) (ks x y)"
    and ok: "\<And>x y. x \<in> set xs \<Longrightarrow> y \<in> set ys \<Longrightarrow> \<exists>es. ev x y = Inr es"
  shows "run = Inr (tally V (concat (map (\<lambda>x. concat (map (ks x) ys)) xs)))"
proof -
  have "ev x y = Inr (map (\<lambda>k. (k, 1)) (ks x y))" if "x \<in> set xs" "y \<in> set ys" for x y
    using ok [OF that] ev [OF that] by auto
  from nested_map_err_Inr [of xs ys ev "\<lambda>x y. map (\<lambda>k. (k, 1)) (ks x y)", OF this]
  have "run = Inr (record_all (concat (map (\<lambda>x. concat (map (\<lambda>y. map (\<lambda>k. (k, 1)) (ks x y)) ys)) xs))
      (zero_dict V))"
    unfolding run by simp
  also have "concat (map (\<lambda>x. concat (map (\<lambda>y. map (\<lambda>k. (k, 1::int)) (ks x y)) ys)) xs) =
      map (\<lambda>k. (k, 1)) (concat (map (\<lambda>x. concat (map (ks x) ys)) xs))"
    by (simp add: map_concat comp_def)
  finally show ?thesis
    by (simp add: record_all_tally)
qed

lemma nested_for_each_events:
  assumes "\<And>x y d. x \<in> set xs \<Longrightarrow> y \<in> set ys \<Longrightarrow>
     body x y d = (case ev x y of Inl e \<Rightarrow> Inl e | Inr es \<Rightarrow> Inr (record_all es d))"
  shows "for_each (\<lambda>x. for_each (body x) ys) xs d =
     (case map_err (\<lambda>x. case map_err (ev x) ys of Inl e \<Rightarrow> Inl e | Inr ess \<Rightarrow> Inr (concat ess)) xs of
        Inl e \<Rightarrow> Inl e | Inr ess \<Rightarrow> Inr (record_all (concat ess) d))"
proof (rule for_each_events_record)
  fix x d assume "x \<in> set xs"
  then have "for_each (body x) ys d =
      (case map_err (ev x) ys of Inl e \<Rightarrow> Inl e | Inr ess \<Rightarrow> Inr (record_all (concat ess) d))"
    by (intro for_each_events_record assms)
  then show "for_each (body x) ys d =
      (case (case map_err (ev x) ys of Inl e \<Rightarrow> Inl e | Inr ess \<Rightarrow> Inr (concat ess)) of
         Inl e \<Rightarrow> Inl e | Inr es \<Rightarrow> Inr (record_all es d))"
    by (simp split: sum.splits)
qed

lemmas example_defs =
  atoms_def example_molecule_def example_atom_def example_utils_def euclidean_distance_def
  vector_from_def orthogonal_projection_def vector_angle_def Let_def

section \<open>Contacts and close contacts\<close>

lemma fold_events_record_pair:
  assumes "\<And>x p. x \<in> set xs \<Longrightarrow>
     body x p = (record_all (evs1 x) (fst p), record_all (evs2 x) (snd p))"
  shows "fold body xs p =
     (record_all (concat (map evs1 xs)) (fst p), record_all (concat (map evs2 xs)) (snd p))"
  using assms by (induction xs arbitrary: p) auto

lemma if_record_one:
  "(if c then hashtable_entry_add_one d k w else d) = record_all (if c then [(k, w)] else []) d"
  by simp

lemma compute_ligand_receptor_contacts_tally:
  "compute_ligand_receptor_contacts u ligand receptor =
     (tally atom_pair_keys
        [atom_pair_key (atomtype l) (atomtype r).
           l \<leftarrow> atoms ligand, r \<leftarrow> atoms receptor,
           dist_to u (coordinates l) (coordinates r) < 5 / 2],
      tally atom_pair_keys
        [atom_pair_key (atomtype l) (atomtype r).
           l \<leftarrow> atoms ligand, r \<leftarrow> atoms receptor,
           dist_to u (coordinates l) (coordinates r) < 4])"
proof -
  let ?evs = "\<lambda>c l r. if dist_to u (coordinates l) (coordinates r) < c
                     then [(atom_pair_key (atomtype l) (atomtype r), 1::int)] else []"
  have A: "fold (\<lambda>ligand_atom. fold (\<lambda>receptor_atom (contacts, close_contacts).
            let dist = dist_to u (coordinates ligand_atom) (coordinates receptor_atom);
                atomstr = atom_pair_key (atomtype ligand_atom) (atomtype receptor_atom)
            in (if dist < CONTACT_CUTOFF
                then hashtable_entry_add_one contacts atomstr 1 else contacts,
                if dist < CLOSE_CONTACT_CUTOFF
                then hashtable_entry_add_one close_contacts atomstr 1 else close_contacts))
          (atoms receptor)) (atoms ligand) p =
        (record_all (concat (map (\<lambda>l. concat (map (?evs 4 l) (atoms receptor))) (atoms ligand))) (fst p),
         record_all (concat (map (\<lambda>l. concat (map (?evs (5 / 2) l) (atoms receptor))) (atoms ligand))) (snd p))"
    for p :: "(string \<rightharpoonup> int) \<times> (string \<rightharpoonup> int)"
    by (intro fold_events_record_pair)
      (simp add: Let_def split_def CONTACT_CUTOFF_def CLOSE_CONTACT_CUTOFF_def)
  have B: "concat (map (\<lambda>l. concat (map (?evs c l) (atoms receptor))) (atoms ligand)) =
      map (\<lambda>k. (k, 1)) [atom_pair_key (atomtype l) (atomtype r).
           l \<leftarrow> atoms ligand, r \<leftarrow> atoms receptor,
           dist_to u (coordinates l) (coordinates r) < c]" for c
    by (simp add: map_concat comp_def if_distrib [of "map _"] cong: if_cong)
  show ?thesis
    unfolding compute_ligand_receptor_contacts_def A B
    by (simp add: record_all_tally)
qed

lemma count_list_concat_mono:
  assumes "\<And>x. x \<in> set xs \<Longrightarrow> count_list (f x) k \<le> count_list (g x) k"
  shows "count_list (concat (map f xs)) k \<le> count_list (concat (map g xs)) k"
  using assms by (induction xs) (auto simp: add_mono)

lemma count_list_pos_iff: "0 < count_list xs k \<longleftrightarrow> k \<in> set xs"
  by (induction xs) auto

text \<open>
  Claim C10. In the pair of dictionaries returned by
  \<^verbatim>\<open>compute_ligand_receptor_contacts\<close> (close contacts first), every key of the
  close-contact dictionary is a key of the contact dictionary, and its close-contact
  count is at most its contact count: a pair of atoms closer than 2.5 is also closer
  than 4.
\<close>

theorem close_contacts_le_contacts:
  assumes "compute_ligand_receptor_contacts u ligand receptor = (close_contacts, contacts)"
    and "close_contacts k = Some n"
  shows "\<exists>m. contacts k = Some m \<and> n \<le> m"
proof -
  let ?keys = "\<lambda>c::real. [atom_pair_key (atomtype l) (atomtype r).
           l \<leftarrow> atoms ligand, r \<leftarrow> atoms receptor,
           dist_to u (coordinates l) (coordinates r) < c]"
  have close: "close_contacts = tally atom_pair_keys (?keys (5 / 2))"
    and contacts: "contacts = tally atom_pair_keys (?keys 4)"
    using assms(1) by (simp_all add: compute_ligand_receptor_contacts_tally)
  have le: "count_list (?keys (5 / 2)) k \<le> count_list (?keys 4) k"
    by (intro count_list_concat_mono) simp
  have n: "n = int (count_list (?keys (5 / 2)) k)"
    and present: "k \<in> set atom_pair_keys \<or> k \<in> set (?keys (5 / 2))"
    using assms(2) unfolding close tally_def by (simp_all split: if_splits)
  from present le have "k \<in> set atom_pair_keys \<or> k \<in> set (?keys 4)"
    using count_list_pos_iff [of "?keys (5 / 2)" k] count_list_pos_iff [of "?keys 4" k]
    by linarith
  then have "contacts k = Some (int (count_list (?keys 4) k))"
    unfolding contacts tally_def by simp
  with n le show ?thesis by simp
qed

text \<open>
  A carbon of the ligand at the origin and an oxygen of the receptor at distance 2:
  the pair is a close contact and a contact, counted once under \<^verbatim>\<open>C_OA\<close> in both.
\<close>

theorem close_contacts_le_contacts_witness:
  "\<exists>m. snd (compute_ligand_receptor_contacts example_utils
             (example_molecule [example_atom (0, 0, 0) ''C'' ''C'' 0 '''' ''''] [] [])
             (example_molecule [example_atom (2, 0, 0) ''O'' ''OA'' 0 ''ALPHA'' ''SIDECHAIN''] [] []))
          ''C_OA'' = Some m \<and> 1 \<le> m"
proof -
  let ?lig = "example_molecule [example_atom (0, 0, 0) ''C'' ''C'' 0 '''' ''''] [] []"
  let ?rec = "example_molecule [example_atom (2, 0, 0) ''O'' ''OA'' 0 ''ALPHA'' ''SIDECHAIN''] [] []"
  let ?r = "compute_ligand_receptor_contacts example_utils ?lig ?rec"
  have "fst ?r ''C_OA'' = Some 1"
    by (simp add: compute_ligand_receptor_contacts_tally tally_def atoms_def
        example_molecule_def example_atom_def example_utils_def euclidean_distance_def
        atom_pair_key_def)
  with close_contacts_le_contacts [of example_utils ?lig ?rec "fst ?r" "snd ?r" "''C_OA''" 1]
  show ?thesis by simp
qed

section \<open>Electrostatic energies\<close>

lemma compute_electrostatic_energy_events:
  "compute_electrostatic_energy u ligand receptor =
     (case map_err (\<lambda>l.
             case map_err (\<lambda>r.
                    if dist_to u (coordinates l) (coordinates r) < 4
                    then if dist_to u (coordinates l) (coordinates r) = 0
                         then Inl ZeroDivisionError
                         else Inr [(atom_pair_key (atomtype l) (atomtype r),
                                    charge l * charge r / dist_to u (coordinates l) (coordinates r)
                                      * ELECTROSTATIC_JOULE_PER_MOL)]
                    else Inr [])
                  (atoms receptor) of
               Inl e \<Rightarrow> Inl e
             | Inr ess \<Rightarrow> Inr (concat ess))
           (atoms ligand) of
        Inl e \<Rightarrow> Inl e
      | Inr ess \<Rightarrow> Inr (record_all (concat ess) (zero_dict atom_pair_keys)))"
proof -
  let ?ev = "\<lambda>l r. if dist_to u (coordinates l) (coordinates r) < 4
                   then if dist_to u (coordinates l) (coordinates r) = 0
                        then Inl ZeroDivisionError
                        else Inr [(atom_pair_key (atomtype l) (atomtype r),
                                   charge l * charge r / dist_to u (coordinates l) (coordinates r)
                                     * ELECTROSTATIC_JOULE_PER_MOL)]
                   else Inr []"
  let ?body = "\<lambda>ligand_atom receptor_atom ligand_receptor_electrostatics.
         let atomstr = atom_pair_key (atomtype ligand_atom) (atomtype receptor_atom);
             dist = dist_to u (coordinates ligand_atom) (coordinates receptor_atom)
         in if dist < CONTACT_CUTOFF
            then let ligand_charge = charge ligand_atom;
                     receptor_charge = charge receptor_atom
                 in if dist = 0 then Inl ZeroDivisionError
                    else let coulomb_energy =
                               (ligand_charge * receptor_charge / dist) * ELECTROSTATIC_JOULE_PER_MOL
                         in Inr (hashtable_entry_add_one ligand_receptor_electrostatics
                                   atomstr coulomb_energy)
            else Inr ligand_receptor_electrostatics"
  have inner: "for_each (?body l) (atoms receptor) d =
      (case map_err (?ev l) (atoms receptor) of
         Inl e \<Rightarrow> Inl e | Inr ess \<Rightarrow> Inr (record_all (concat ess) d))" for l d
    by (rule for_each_events_record) (simp add: Let_def CONTACT_CUTOFF_def)
  have "for_each (\<lambda>l. for_each (?body l) (atoms receptor)) (atoms ligand) d =
      (case map_err (\<lambda>l. case map_err (?ev l) (atoms receptor) of
                           Inl e \<Rightarrow> Inl e | Inr ess \<Rightarrow> Inr (concat ess)) (atoms ligand) of
         Inl e \<Rightarrow> Inl e | Inr ess \<Rightarrow> Inr (record_all (concat ess) d))" for d
    by (rule for_each_events_record) (simp only: inner, simp split: sum.splits)
  then show ?thesis
    unfolding compute_electrostatic_energy_def by simp
qed

lemma compute_electrostatic_energy_Inr:
  assumes "\<And>l r. l \<in> set (atoms ligand) \<Longrightarrow> r \<in> set (atoms receptor) \<Longrightarrow>
     dist_to u (coordinates l) (coordinates r) < 4 \<Longrightarrow>
     dist_to u (coordinates l) (coordinates r) \<noteq> 0"
  shows "compute_electrostatic_energy u ligand receptor =
     Inr (record_all
            [(atom_pair_key (atomtype l) (atomtype r),
              charge l * charge r / dist_to u (coordinates l) (coordinates r)
                * ELECTROSTATIC_JOULE_PER_MOL).
               l \<leftarrow> atoms ligand, r \<leftarrow> atoms receptor,
               dist_to u (coordinates l) (coordinates r) < 4]
            (zero_dict atom_pair_keys))"
proof -
  let ?ev = "\<lambda>l r. if dist_to u (coordinates l) (coordinates r) < 4
                   then [(atom_pair_key (atomtype l) (atomtype r),
                          charge l * charge r / dist_to u (coordinates l) (coordinates r)
                            * ELECTROSTATIC_JOULE_PER_MOL)]
                   else []"
  have inner: "map_err (\<lambda>r.
                    if dist_to u (coordinates l) (coordinates r) < 4
                    then if dist_to u (coordinates l) (coordinates r) = 0
                         then Inl ZeroDivisionError
                         else Inr [(atom_pair_key (atomtype l) (atomtype r),
                                    charge l * charge r / dist_to u (coordinates l) (coordinates r)
                                      * ELECTROSTATIC_JOULE_PER_MOL)]
                    else Inr [])
                  (atoms receptor) = Inr (map (?ev l) (atoms receptor))"
    if "l \<in> set (atoms ligand)" for l
    by (rule map_err_Inr) (use that assms in auto)
  have outer: "map_err (\<lambda>l.
             case map_err (\<lambda>r.
                    if dist_to u (coordinates l) (coordinates r) < 4
                    then if dist_to u (coordinates l) (coordinates r) = 0
                         then Inl ZeroDivisionError
                         else Inr [(atom_pair_key (atomtype l) (atomtype r),
                                    charge l * charge r / dist_to u (coordinates l) (coordinates r)
                                      * ELECTROSTATIC_JOULE_PER_MOL)]
                    else Inr [])
                  (atoms receptor) of
               Inl e \<Rightarrow> Inl e
             | Inr ess \<Rightarrow> Inr (concat ess))
           (atoms ligand) = Inr (map (\<lambda>l. concat (map (?ev l) (atoms receptor))) (atoms ligand))"
    by (rule map_err_Inr) (simp add: inner)
  show ?thesis
    unfolding compute_electrostatic_energy_events outer by simp
qed

lemma atom_pair_key_sorted:
  "atom_pair_key a b = (if a \<le> b then a @ ''_'' @ b else b @ ''_'' @ a)"
  by (simp add: atom_pair_key_def)

text \<open>
  Claim C8. When no ligand atom lies at distance zero from a receptor atom, the
  electrostatic detector returns a dictionary in which every key holds the sum of the
  Coulomb terms \<open>ligand_charge * receptor_charge / d * 1389423.8460104697\<close> of exactly
  the atom pairs at a distance \<open>d < 4\<close> whose sorted pair of atom types is that key;
  a pair at distance 4 or more contributes nothing. (At distance zero the quotient is
  not a finite number; the hypothesis excludes it.) The key of a pair is the two atom
  types in sorted order, joined by an underscore.
\<close>

theorem electrostatic_energy_sum:
  assumes "\<forall>l \<in> set (atoms ligand). \<forall>r \<in> set (atoms receptor).
     dist_to u (coordinates l) (coordinates r) < 4 \<longrightarrow>
     dist_to u (coordinates l) (coordinates r) \<noteq> 0"
  shows "\<exists>d. compute_electrostatic_energy u ligand receptor = Inr d \<and>
     (\<forall>k. d k =
        (let terms = [charge l * charge r / dist_to u (coordinates l) (coordinates r)
                        * 1389423.8460104697.
                      l \<leftarrow> atoms ligand, r \<leftarrow> atoms receptor,
                      dist_to u (coordinates l) (coordinates r) < 4,
                      atom_pair_key (atomtype l) (atomtype r) = k]
         in if k \<in> set atom_pair_keys \<or> terms \<noteq> [] then Some (sum_list terms) else None)) \<and>
     (\<forall>a b. atom_pair_key a b = (if a \<le> b then a @ ''_'' @ b else b @ ''_'' @ a))"
proof -
  let ?evs = "[(atom_pair_key (atomtype l) (atomtype r),
              charge l * charge r / dist_to u (coordinates l) (coordinates r)
                * ELECTROSTATIC_JOULE_PER_MOL).
               l \<leftarrow> atoms ligand, r \<leftarrow> atoms receptor,
               dist_to u (coordinates l) (coordinates r) < 4]"
  let ?terms = "\<lambda>k. [charge l * charge r / dist_to u (coordinates l) (coordinates r)
                        * 1389423.8460104697.
                      l \<leftarrow> atoms ligand, r \<leftarrow> atoms receptor,
                      dist_to u (coordinates l) (coordinates r) < 4,
                      atom_pair_key (atomtype l) (atomtype r) = k]"
  have run: "compute_electrostatic_energy u ligand receptor =
      Inr (record_all ?evs (zero_dict atom_pair_keys))"
    using assms by (intro compute_electrostatic_energy_Inr) blast
  have terms: "map snd (filter (\<lambda>e. fst e = k) ?evs) = ?terms k" for k
    by (simp add: filter_concat map_concat comp_def ELECTROSTATIC_JOULE_PER_MOL_def
        if_distrib [of "filter _"] if_distrib [of "map _"] cong: if_cong)
  have present: "k \<in> fst ` set ?evs \<longleftrightarrow> ?terms k \<noteq> []" for k
    by (auto simp: image_iff)
  have "record_all ?evs (zero_dict atom_pair_keys) k =
      (if k \<in> set atom_pair_keys \<or> ?terms k \<noteq> [] then Some (sum_list (?terms k)) else None)" for k
    unfolding record_all_zero_dict terms present ..
  with run show ?thesis
    by (simp add: Let_def atom_pair_key_sorted)
qed

text \<open>
  Charges \<open>+1\<close> and \<open>-1\<close> at distance 2: the energy \<open>- 1389423.8460104697 / 2\<close> under
  the key \<^verbatim>\<open>N_OA\<close>.
\<close>

theorem electrostatic_energy_sum_witness:
  "\<exists>d. compute_electrostatic_energy example_utils
          (example_molecule [example_atom (0, 0, 0) ''N'' ''N'' 1 '''' ''''] [] [])
          (example_molecule [example_atom (2, 0, 0) ''O'' ''OA'' (- 1) ''ALPHA'' ''SIDECHAIN''] [] [])
        = Inr d \<and> d ''N_OA'' = Some (- 694711.92300523485)"
proof -
  let ?lig = "example_molecule [example_atom (0, 0, 0) ''N'' ''N'' 1 '''' ''''] [] []"
  let ?rec = "example_molecule [example_atom (2, 0, 0) ''O'' ''OA'' (- 1) ''ALPHA'' ''SIDECHAIN''] [] []"
  have "\<forall>l \<in> set (atoms ?lig). \<forall>r \<in> set (atoms ?rec).
     dist_to example_utils (coordinates l) (coordinates r) < 4 \<longrightarrow>
     dist_to example_utils (coordinates l) (coordinates r) \<noteq> 0"
    by (simp add: atoms_def example_molecule_def example_atom_def example_utils_def
        euclidean_distance_def)
  from electrostatic_energy_sum [OF this] obtain d where
    d: "compute_electrostatic_energy example_utils ?lig ?rec = Inr d"
    and at: "d ''N_OA'' =
        (let terms = [charge l * charge r / dist_to example_utils (coordinates l) (coordinates r)
                        * 1389423.8460104697.
                      l \<leftarrow> atoms ?lig, r \<leftarrow> atoms ?rec,
                      dist_to example_utils (coordinates l) (coordinates r) < 4,
                      atom_pair_key (atomtype l) (atomtype r) = ''N_OA'']
         in if ''N_OA'' \<in> set atom_pair_keys \<or> terms \<noteq> [] then Some (sum_list terms) else None)"
    by blast
  have "d ''N_OA'' = Some (- 694711.92300523485)"
    unfolding at
    by (simp add: atoms_def example_molecule_def example_atom_def example_utils_def
        euclidean_distance_def atom_pair_key_def)
  with d show ?thesis by blast
qed

section \<open>Hydrogen bonds\<close>

lemma fold_if_keys_record:
  "fold (\<lambda>x d. if c x then hashtable_entry_add_one d (keyf x) 1 else d) xs d =
   record_all (map (\<lambda>k. (k, 1::int)) (concat (map (\<lambda>x. if c x then [keyf x] else []) xs))) d"
  by (rule fold_keys_record) simp

lemma compute_hydrogen_bonds_record:
  "compute_hydrogen_bonds u ligand receptor =
     tally hbond_keys
       (concat (map (\<lambda>l. concat (map (\<lambda>r.
          if dist_to u (coordinates l) (coordinates r) < 4
          then if element l \<in> set electronegative_atoms \<and> element r \<in> set electronegative_atoms
               then concat (map (\<lambda>h.
                      if \<bar>180 - angle_between_three_points u (coordinates l) (coordinates h)
                                  (coordinates r) * 180 / pi\<bar> \<le> 40
                      then [''HDONOR-'' @ comment h @ ''_'' @ side_chain_or_backbone r @ ''_'' @
                            atom_structure r]
                      else [])
                    (nearby_hydrogens u ligand l ''LIGAND'' @
                     nearby_hydrogens u receptor r ''RECEPTOR''))
               else []
          else []) (atoms receptor))) (atoms ligand)))"
proof -
  have "compute_hydrogen_bonds u ligand receptor =
      record_all (map (\<lambda>k. (k, 1)) (concat (map (\<lambda>l. concat (map (\<lambda>r.
          if dist_to u (coordinates l) (coordinates r) < 4
          then if element l \<in> set electronegative_atoms \<and> element r \<in> set electronegative_atoms
               then concat (map (\<lambda>h.
                      if \<bar>180 - angle_between_three_points u (coordinates l) (coordinates h)
                                  (coordinates r) * 180 / pi\<bar> \<le> 40
                      then [''HDONOR-'' @ comment h @ ''_'' @ side_chain_or_backbone r @ ''_'' @
                            atom_structure r]
                      else [])
                    (nearby_hydrogens u ligand l ''LIGAND'' @
                     nearby_hydrogens u receptor r ''RECEPTOR''))
               else []
          else []) (atoms receptor))) (atoms ligand))))
        (zero_dict hbond_keys)"
    unfolding compute_hydrogen_bonds_def
    by (intro fold_keys_record)
      (simp add: Let_def CONTACT_CUTOFF_def H_BOND_ANGLE_def fold_if_keys_record)
  then show ?thesis by (simp add: record_all_tally)
qed

lemma compute_hydrogen_bonds_interactions:
  "compute_hydrogen_bonds u ligand receptor =
     tally hbond_keys (hydrogen_bond_interactions u ligand receptor)"
proof -
  let ?F = "\<lambda>l r donor p.
      if \<bar>180 - angle_between_three_points u (coordinates l) p (coordinates r) * 180 / pi\<bar> \<le> 40
      then [''HDONOR-'' @ donor @ ''_'' @ side_chain_or_backbone r @ ''_'' @ atom_structure r]
      else []"
  have hyd: "concat (map (\<lambda>h. f (comment h) (coordinates h))
                  (map (\<lambda>a. a\<lparr>comment := owner\<rparr>) (filter P as))) =
      concat (map (\<lambda>(donor, h). f donor (coordinates h))
                  (concat (map (\<lambda>h. if P h then [(owner, h)] else []) as)))"
    for f :: "string \<Rightarrow> point \<Rightarrow> string list" and P owner and as :: "atom list"
    by (induction as) auto
  have inner: "concat (map (\<lambda>h. ?F l r (comment h) (coordinates h))
                    (nearby_hydrogens u ligand l ''LIGAND'' @
                     nearby_hydrogens u receptor r ''RECEPTOR'')) =
      concat (map (\<lambda>(donor, h). ?F l r donor (coordinates h))
        ([(''LIGAND'', h). h \<leftarrow> atoms ligand, element h = ''H'' \<and>
              dist_to u (coordinates h) (coordinates l) < 1.3] @
         [(''RECEPTOR'', h). h \<leftarrow> atoms receptor, element h = ''H'' \<and>
              dist_to u (coordinates h) (coordinates r) < 1.3]))" for l r
    unfolding nearby_hydrogens_def H_BOND_DIST_def map_append concat_append
      hyd [of "?F l r"]
    by simp
  show ?thesis
    unfolding hydrogen_bond_interactions_def compute_hydrogen_bonds_record inner
    by (simp add: electronegative_atoms_def if_if_eq_conj conj_ac cong: if_cong)
qed


text \<open>
  Claim C5. The dictionary of \<^verbatim>\<open>compute_hydrogen_bonds\<close> counts, under each key, the
  hydrogen bonds with that key, where a hydrogen bond is a ligand atom \<open>l\<close>, a receptor
  atom \<open>r\<close> and a hydrogen \<open>h\<close> such that both \<open>l\<close> and \<open>r\<close> have element O, N or F,
  their distance is less than 4, the hydrogen is an atom of the ligand at a distance
  less than 1.3 from \<open>l\<close> (donor \<^verbatim>\<open>LIGAND\<close>) or an atom of the receptor at a distance
  less than 1.3 from \<open>r\<close> (donor \<^verbatim>\<open>RECEPTOR\<close>), and the angle at the hydrogen between
  \<open>l\<close> and \<open>r\<close>, in degrees, differs from 180 by at most 40. The key of the bond names
  the donor molecule, the side-chain or backbone class of the receptor atom and its
  structure class. So a pair of atoms is counted exactly when such a hydrogen exists,
  once for every such hydrogen.
\<close>

theorem hydrogen_bonds_counted:
  "compute_hydrogen_bonds u ligand receptor =
     tally hbond_keys
       [''HDONOR-'' @ donor @ ''_'' @ side_chain_or_backbone r @ ''_'' @ atom_structure r.
          l \<leftarrow> atoms ligand, r \<leftarrow> atoms receptor,
          element l \<in> {''O'', ''N'', ''F''} \<and> element r \<in> {''O'', ''N'', ''F''} \<and>
          dist_to u (coordinates l) (coordinates r) < 4,
          (donor, h) \<leftarrow>
             [(''LIGAND'', h). h \<leftarrow> atoms ligand, element h = ''H'' \<and>
                dist_to u (coordinates h) (coordinates l) < 1.3] @
             [(''RECEPTOR'', h). h \<leftarrow> atoms receptor, element h = ''H'' \<and>
                dist_to u (coordinates h) (coordinates r) < 1.3],
          \<bar>180 - angle_between_three_points u (coordinates l) (coordinates h) (coordinates r)
                  * 180 / pi\<bar> \<le> 40]"
  using compute_hydrogen_bonds_interactions [of u ligand receptor]
  by (simp only: hydrogen_bond_interactions_def)

text \<open>
  A ligand nitrogen at the origin with its hydrogen at distance 1 on the line to a
  receptor oxygen at distance 3: one bond, donated by the ligand.
\<close>

theorem hydrogen_bonds_counted_witness:
  "compute_hydrogen_bonds example_utils
     (example_molecule [example_atom (0, 0, 0) ''N'' ''N'' 0 '''' '''',
                        example_atom (1, 0, 0) ''H'' ''HD'' 0 '''' ''''] [] [])
     (example_molecule [example_atom (3, 0, 0) ''O'' ''OA'' 0 ''ALPHA'' ''SIDECHAIN''] [] [])
   = tally hbond_keys [''HDONOR-LIGAND_SIDECHAIN_ALPHA'']"
  unfolding hydrogen_bonds_counted
  by (simp add: example_defs)

section \<open>Ring interactions\<close>

lemma atom_at_Inr_iff: "atom_at mol i = Inr a \<longleftrightarrow> map_of (all_atoms mol) i = Some a"
  by (simp add: atom_at_def split: option.splits)

lemma atom_at_known:
  "indices_known mol idxs \<Longrightarrow> i \<in> set idxs \<Longrightarrow> \<exists>a. atom_at mol i = Inr a"
  by (auto simp: indices_known_def list_all_iff atom_at_def split: option.splits)

lemma projects_inside_Inr:
  "projects_inside u mol other idxs = Inr b \<Longrightarrow>
   b = (\<exists>i \<in> set idxs. \<exists>a. map_of (all_atoms mol) i = Some a \<and>
          dist_to u (project_point_onto_plane u (coordinates a) (plane_coeff other)) (center other)
            \<le> radius other + 0.75)"
  by (induction idxs) (auto simp: atom_at_def PI_PADDING_def split: option.splits if_splits)

lemma projects_inside_known:
  "indices_known mol idxs \<Longrightarrow> \<exists>b. projects_inside u mol other idxs = Inr b"
  by (induction idxs) (auto simp: indices_known_def atom_at_def split: option.splits)

lemma ring_structure_key_first_atoms:
  "ring_structure_key prefix receptor idxs =
     (case idxs of
        [] \<Rightarrow> Inl IndexError
      | i # _ \<Rightarrow>
          (case first_atoms receptor idxs of
             [] \<Rightarrow> Inl KeyError
           | a # _ \<Rightarrow> Inr (prefix @ structure_or_other a)))"
  by (simp add: ring_structure_key_def first_index_def atom_at_def first_atoms_def
      structure_or_other_def Let_def split: list.splits option.splits)

lemma ring_structure_key_Inr:
  "ring_structure_key prefix receptor idxs = Inr key \<Longrightarrow>
   map (\<lambda>a. prefix @ structure_or_other a) (first_atoms receptor idxs) = [key]"
  by (auto simp: ring_structure_key_first_atoms first_atoms_def split: list.splits option.splits)

lemma ring_structure_key_known:
  "idxs \<noteq> [] \<Longrightarrow> indices_known receptor idxs \<Longrightarrow> \<exists>key. ring_structure_key prefix receptor idxs = Inr key"
  by (cases idxs)
    (auto simp: ring_structure_key_first_atoms first_atoms_def indices_known_def
      split: option.splits)

lemma compute_pi_pi_stacking_events:
  "compute_pi_pi_stacking u ligand receptor =
     (case map_err (\<lambda>lr.
             case map_err (\<lambda>rr.
                    if dist_to u (center lr) (center rr) < PI_PI_CUTOFF \<and>
                       (\<bar>angle_between_points u (norm_vector lr) (norm_vector rr) * 180 / pi - 0\<bar> < 30 \<or>
                        \<bar>angle_between_points u (norm_vector lr) (norm_vector rr) * 180 / pi - 180\<bar> < 30)
                    then (case projects_inside u ligand rr (indices lr) of
                            Inl e \<Rightarrow> Inl e
                          | Inr b \<Rightarrow>
                              (case (if b then Inr True
                                     else projects_inside u receptor lr (indices rr)) of
                                 Inl e \<Rightarrow> Inl e
                               | Inr b' \<Rightarrow>
                                   if b'
                                   then (case ring_structure_key ''STACKING_'' receptor (indices rr) of
                                           Inl e \<Rightarrow> Inl e
                                         | Inr key \<Rightarrow> Inr [(key, 1)])
                                   else Inr []))
                    else Inr [])
                  (aromatic_rings receptor) of
               Inl e \<Rightarrow> Inl e
             | Inr ess \<Rightarrow> Inr (concat ess))
           (aromatic_rings ligand) of
        Inl e \<Rightarrow> Inl e
      | Inr ess \<Rightarrow> Inr (record_all (concat ess) (zero_dict stacking_keys)))"
  unfolding compute_pi_pi_stacking_def
  by (rule nested_for_each_events) (auto simp: Let_def split: sum.splits)

lemma pi_pi_unit_Inr:
  assumes "(if dist_to u (center lr) (center rr) < PI_PI_CUTOFF \<and>
               (\<bar>angle_between_points u (norm_vector lr) (norm_vector rr) * 180 / pi - 0\<bar> < 30 \<or>
                \<bar>angle_between_points u (norm_vector lr) (norm_vector rr) * 180 / pi - 180\<bar> < 30)
            then (case projects_inside u ligand rr (indices lr) of
                    Inl e \<Rightarrow> Inl e
                  | Inr b \<Rightarrow>
                      (case (if b then Inr True
                             else projects_inside u receptor lr (indices rr)) of
                         Inl e \<Rightarrow> Inl e
                       | Inr b' \<Rightarrow>
                           if b'
                           then (case ring_structure_key ''STACKING_'' receptor (indices rr) of
                                   Inl e \<Rightarrow> Inl e
                                 | Inr key \<Rightarrow> Inr [(key, 1::int)])
                           else Inr []))
            else Inr []) = Inr es"
  shows "es = map (\<lambda>k. (k, 1))
      (if dist_to u (center lr) (center rr) < 7.5 \<and>
          (\<bar>angle_between_points u (norm_vector lr) (norm_vector rr) * 180 / pi - 0\<bar> < 30 \<or>
           \<bar>angle_between_points u (norm_vector lr) (norm_vector rr) * 180 / pi - 180\<bar> < 30) \<and>
          ((\<exists>i \<in> set (indices lr). \<exists>a. map_of (all_atoms ligand) i = Some a \<and>
              dist_to u (project_point_onto_plane u (coordinates a) (plane_coeff rr)) (center rr)
                \<le> radius rr + 0.75) \<or>
           (\<exists>i \<in> set (indices rr). \<exists>a. map_of (all_atoms receptor) i = Some a \<and>
              dist_to u (project_point_onto_plane u (coordinates a) (plane_coeff lr)) (center lr)
                \<le> radius lr + 0.75))
       then map (\<lambda>a. ''STACKING_'' @ structure_or_other a) (first_atoms receptor (indices rr))
       else [])"
proof (cases "dist_to u (center lr) (center rr) < PI_PI_CUTOFF \<and>
               (\<bar>angle_between_points u (norm_vector lr) (norm_vector rr) * 180 / pi - 0\<bar> < 30 \<or>
                \<bar>angle_between_points u (norm_vector lr) (norm_vector rr) * 180 / pi - 180\<bar> < 30)")
  case False
  with assms show ?thesis by (auto simp: PI_PI_CUTOFF_def)
next
  case True
  with assms obtain b where b: "projects_inside u ligand rr (indices lr) = Inr b"
    by (auto split: sum.splits)
  note b_eq = projects_inside_Inr [OF b]
  show ?thesis
  proof (cases b)
    case True
    with assms \<open>dist_to u (center lr) (center rr) < PI_PI_CUTOFF \<and> _\<close> b
    obtain key where key: "ring_structure_key ''STACKING_'' receptor (indices rr) = Inr key"
      and es: "es = [(key, 1)]"
      by (auto split: sum.splits)
    from ring_structure_key_Inr [OF key] es True b_eq
      \<open>dist_to u (center lr) (center rr) < PI_PI_CUTOFF \<and> _\<close>
    show ?thesis
      by (auto simp: PI_PI_CUTOFF_def)
  next
    case False
    with assms \<open>dist_to u (center lr) (center rr) < PI_PI_CUTOFF \<and> _\<close> b
    obtain b' where b': "projects_inside u receptor lr (indices rr) = Inr b'"
      by (auto split: sum.splits)
    note b'_eq = projects_inside_Inr [OF b']
    show ?thesis
    proof (cases b')
      case True
      with assms \<open>dist_to u (center lr) (center rr) < PI_PI_CUTOFF \<and> _\<close> b b' \<open>\<not> b\<close>
      obtain key where key: "ring_structure_key ''STACKING_'' receptor (indices rr) = Inr key"
        and es: "es = [(key, 1)]"
        by (auto split: sum.splits)
      from ring_structure_key_Inr [OF key] es True b'_eq
        \<open>dist_to u (center lr) (center rr) < PI_PI_CUTOFF \<and> _\<close>
      show ?thesis
        by (auto simp: PI_PI_CUTOFF_def)
    next
      case False
      with assms \<open>dist_to u (center lr) (center rr) < PI_PI_CUTOFF \<and> _\<close> b b' \<open>\<not> b\<close>
      have "es = []" by (auto split: sum.splits)
      with False \<open>\<not> b\<close> b_eq b'_eq show ?thesis
        by auto
    qed
  qed
qed

lemma pi_pi_unit_known:
  assumes "rings_known ligand" "rings_known receptor" "rings_anchored receptor"
    and "lr \<in> set (aromatic_rings ligand)" "rr \<in> set (aromatic_rings receptor)"
  shows "\<exists>es. (if c
            then (case projects_inside u ligand rr (indices lr) of
                    Inl e \<Rightarrow> Inl e
                  | Inr b \<Rightarrow>
                      (case (if b then Inr True
                             else projects_inside u receptor lr (indices rr)) of
                         Inl e \<Rightarrow> Inl e
                       | Inr b' \<Rightarrow>
                           if b'
                           then (case ring_structure_key ''STACKING_'' receptor (indices rr) of
                                   Inl e \<Rightarrow> Inl e
                                 | Inr key \<Rightarrow> Inr [(key, 1::int)])
                           else Inr []))
            else Inr []) = Inr es"
proof -
  have l: "indices_known ligand (indices lr)" and r: "indices_known receptor (indices rr)"
    and nonempty: "indices rr \<noteq> []"
    using assms by (auto simp: rings_known_def rings_anchored_def list_all_iff)
  from projects_inside_known [OF l] obtain b where
    "projects_inside u ligand rr (indices lr) = Inr b" by blast
  moreover from projects_inside_known [OF r] obtain b' where
    "projects_inside u receptor lr (indices rr) = Inr b'" by blast
  moreover from ring_structure_key_known [OF nonempty r] obtain key where
    "ring_structure_key ''STACKING_'' receptor (indices rr) = Inr key" by blast
  ultimately show ?thesis by simp
qed

lemma compute_pi_pi_stacking_interactions:
  "(\<forall>d. compute_pi_pi_stacking u ligand receptor = Inr d \<longrightarrow>
        d = tally stacking_keys (stacking_interactions u ligand receptor)) \<and>
   (rings_known ligand \<and> rings_known receptor \<and> rings_anchored receptor \<longrightarrow>
      compute_pi_pi_stacking u ligand receptor =
        Inr (tally stacking_keys (stacking_interactions u ligand receptor)))"
proof -
  let ?ks = "\<lambda>lr rr.
      if dist_to u (center lr) (center rr) < 7.5 \<and>
          (\<bar>angle_between_points u (norm_vector lr) (norm_vector rr) * 180 / pi - 0\<bar> < 30 \<or>
           \<bar>angle_between_points u (norm_vector lr) (norm_vector rr) * 180 / pi - 180\<bar> < 30) \<and>
          ((\<exists>i \<in> set (indices lr). \<exists>a. map_of (all_atoms ligand) i = Some a \<and>
              dist_to u (project_point_onto_plane u (coordinates a) (plane_coeff rr)) (center rr)
                \<le> radius rr + 0.75) \<or>
           (\<exists>i \<in> set (indices rr). \<exists>a. map_of (all_atoms receptor) i = Some a \<and>
              dist_to u (project_point_onto_plane u (coordinates a) (plane_coeff lr)) (center lr)
                \<le> radius lr + 0.75))
       then map (\<lambda>a. ''STACKING_'' @ structure_or_other a) (first_atoms receptor (indices rr))
       else []"
  let ?stacks = "concat (map (\<lambda>lr. concat (map (?ks lr) (aromatic_rings receptor)))
                   (aromatic_rings ligand))"
  have partial: "d = tally stacking_keys ?stacks"
    if "compute_pi_pi_stacking u ligand receptor = Inr d" for d
    by (rule nested_run_partial [OF compute_pi_pi_stacking_events _ that])
      (erule pi_pi_unit_Inr)
  have total: "compute_pi_pi_stacking u ligand receptor = Inr (tally stacking_keys ?stacks)"
    if "rings_known ligand" "rings_known receptor" "rings_anchored receptor"
    by (rule nested_run_total [OF compute_pi_pi_stacking_events])
      (erule pi_pi_unit_Inr, rule pi_pi_unit_known [OF that])
  show ?thesis
    unfolding stacking_interactions_def concat_map_singleton
    using partial total by blast
qed


text \<open>
  Claim C6. The dictionary of \<^verbatim>\<open>compute_pi_pi_stacking\<close> counts, under each key, the
  pairs of a ligand ring and a receptor ring such that the distance between the ring
  centers is less than 7.5, the angle between the plane normals, in degrees, is within
  30 of 0 or of 180, and some atom of the ligand ring projects onto the plane of the
  receptor ring within the radius of that ring plus 0.75 of its center, or some atom of
  the receptor ring does so on the ligand ring. The key is \<^verbatim>\<open>STACKING_\<close> followed by
  the structure label of the first atom of the receptor ring, \<^verbatim>\<open>OTHER\<close> standing for
  the empty label. This holds of every dictionary the detector returns, and it returns
  one whenever the ring indices are atoms of their molecules and every receptor ring
  has a first index.
\<close>

theorem pi_pi_stacking_counted:
  "let stacks =
         [''STACKING_'' @ structure_or_other first_atom.
            lr \<leftarrow> aromatic_rings ligand, rr \<leftarrow> aromatic_rings receptor,
            dist_to u (center lr) (center rr) < 7.5 \<and>
            (\<bar>angle_between_points u (norm_vector lr) (norm_vector rr) * 180 / pi - 0\<bar> < 30 \<or>
             \<bar>angle_between_points u (norm_vector lr) (norm_vector rr) * 180 / pi - 180\<bar> < 30) \<and>
            ((\<exists>i \<in> set (indices lr). \<exists>a. map_of (all_atoms ligand) i = Some a \<and>
                dist_to u (project_point_onto_plane u (coordinates a) (plane_coeff rr)) (center rr)
                  \<le> radius rr + 0.75) \<or>
             (\<exists>i \<in> set (indices rr). \<exists>a. map_of (all_atoms receptor) i = Some a \<and>
                dist_to u (project_point_onto_plane u (coordinates a) (plane_coeff lr)) (center lr)
                  \<le> radius lr + 0.75)),
            first_atom \<leftarrow> first_atoms receptor (indices rr)]
   in (\<forall>d. compute_pi_pi_stacking u ligand receptor = Inr d \<longrightarrow> d = tally stacking_keys stacks) \<and>
      (rings_known ligand \<and> rings_known receptor \<and> rings_anchored receptor \<longrightarrow>
       compute_pi_pi_stacking u ligand receptor = Inr (tally stacking_keys stacks))"
  using compute_pi_pi_stacking_interactions [of u ligand receptor]
  by (simp only: stacking_interactions_def Let_def)

text \<open>
  Two parallel rings at distance 4, the ligand atom projecting inside the receptor
  ring, whose first atom has the empty structure label: one stack under \<^verbatim>\<open>STACKING_OTHER\<close>.
\<close>

theorem pi_pi_stacking_counted_witness:
  "rings_known (example_molecule [example_atom (1, 0, 0) ''C'' ''A'' 0 '''' '''']
       [\<lparr>center = (0, 0, 0), plane_coeff = (0, 0, 1, 0), indices = [0], radius = 1.4\<rparr>] []) \<and>
   rings_known (example_molecule [example_atom (1, 0, 4) ''C'' ''A'' 0 '''' ''SIDECHAIN'']
       [\<lparr>center = (0, 0, 4), plane_coeff = (0, 0, 1, 4), indices = [0], radius = 1.4\<rparr>] []) \<and>
   rings_anchored (example_molecule [example_atom (1, 0, 4) ''C'' ''A'' 0 '''' ''SIDECHAIN'']
       [\<lparr>center = (0, 0, 4), plane_coeff = (0, 0, 1, 4), indices = [0], radius = 1.4\<rparr>] []) \<and>
   compute_pi_pi_stacking example_utils
     (example_molecule [example_atom (1, 0, 0) ''C'' ''A'' 0 '''' '''']
       [\<lparr>center = (0, 0, 0), plane_coeff = (0, 0, 1, 0), indices = [0], radius = 1.4\<rparr>] [])
     (example_molecule [example_atom (1, 0, 4) ''C'' ''A'' 0 '''' ''SIDECHAIN'']
       [\<lparr>center = (0, 0, 4), plane_coeff = (0, 0, 1, 4), indices = [0], radius = 1.4\<rparr>] [])
   = Inr (tally stacking_keys [''STACKING_OTHER''])"
proof -
  let ?lig = "example_molecule [example_atom (1, 0, 0) ''C'' ''A'' 0 '''' '''']
       [\<lparr>center = (0, 0, 0), plane_coeff = (0, 0, 1, 0), indices = [0], radius = 1.4\<rparr>] []"
  let ?rec = "example_molecule [example_atom (1, 0, 4) ''C'' ''A'' 0 '''' ''SIDECHAIN'']
       [\<lparr>center = (0, 0, 4), plane_coeff = (0, 0, 1, 4), indices = [0], radius = 1.4\<rparr>] []"
  have wf: "rings_known ?lig \<and> rings_known ?rec \<and> rings_anchored ?rec"
    by (simp add: rings_known_def rings_anchored_def indices_known_def example_molecule_def)
  have stacks: "[''STACKING_'' @ structure_or_other first_atom.
            lr \<leftarrow> aromatic_rings ?lig, rr \<leftarrow> aromatic_rings ?rec,
            dist_to example_utils (center lr) (center rr) < 7.5 \<and>
            (\<bar>angle_between_points example_utils (norm_vector lr) (norm_vector rr) * 180 / pi - 0\<bar> < 30 \<or>
             \<bar>angle_between_points example_utils (norm_vector lr) (norm_vector rr) * 180 / pi - 180\<bar> < 30) \<and>
            ((\<exists>i \<in> set (indices lr). \<exists>a. map_of (all_atoms ?lig) i = Some a \<and>
                dist_to example_utils (project_point_onto_plane example_utils (coordinates a) (plane_coeff rr)) (center rr)
                  \<le> radius rr + 0.75) \<or>
             (\<exists>i \<in> set (indices rr). \<exists>a. map_of (all_atoms ?rec) i = Some a \<and>
                dist_to example_utils (project_point_onto_plane example_utils (coordinates a) (plane_coeff lr)) (center lr)
                  \<le> radius lr + 0.75)),
            first_atom \<leftarrow> first_atoms ?rec (indices rr)] = [''STACKING_OTHER'']"
    by (simp add: example_defs norm_vector_def first_atoms_def structure_or_other_def)
  from pi_pi_stacking_counted [where u = example_utils and ligand = ?lig and receptor = ?rec,
      unfolded Let_def stacks] wf
  show ?thesis by blast
qed

section \<open>Salt bridges\<close>

lemma compute_salt_bridges_events:
  "compute_salt_bridges u ligand receptor =
     (case map_err (\<lambda>rc.
             case map_err (\<lambda>lc.
                    if positive lc \<noteq> positive rc \<and>
                       dist_to u (charged_coordinates lc) (charged_coordinates rc) < SALT_BRIDGE_CUTOFF
                    then (case first_index (charged_indices rc) of
                            Inl e \<Rightarrow> Inl e
                          | Inr i \<Rightarrow>
                              (case atom_at receptor i of
                                 Inl e \<Rightarrow> Inl e
                               | Inr a \<Rightarrow> Inr [(''SALT-BRIDGE_'' @ atom_structure a, 1)]))
                    else Inr [])
                  (charges ligand) of
               Inl e \<Rightarrow> Inl e
             | Inr ess \<Rightarrow> Inr (concat ess))
           (charges receptor) of
        Inl e \<Rightarrow> Inl e
      | Inr ess \<Rightarrow> Inr (record_all (concat ess) (zero_dict salt_bridge_keys)))"
  unfolding compute_salt_bridges_def
  by (rule nested_for_each_events) (auto simp: Let_def split: sum.splits)

lemma salt_bridge_unit_Inr:
  assumes "(if positive lc \<noteq> positive rc \<and>
               dist_to u (charged_coordinates lc) (charged_coordinates rc) < SALT_BRIDGE_CUTOFF
            then (case first_index (charged_indices rc) of
                    Inl e \<Rightarrow> Inl e
                  | Inr i \<Rightarrow>
                      (case atom_at receptor i of
                         Inl e \<Rightarrow> Inl e
                       | Inr a \<Rightarrow> Inr [(''SALT-BRIDGE_'' @ atom_structure a, 1::int)]))
            else Inr []) = Inr es"
  shows "es = map (\<lambda>k. (k, 1))
      (if positive lc \<noteq> positive rc \<and>
          dist_to u (charged_coordinates lc) (charged_coordinates rc) < 5.5
       then map (\<lambda>a. ''SALT-BRIDGE_'' @ atom_structure a) (first_atoms receptor (charged_indices rc))
       else [])"
  using assms
  by (auto simp: SALT_BRIDGE_CUTOFF_def first_index_def atom_at_def first_atoms_def
      split: if_splits list.splits option.splits)

lemma salt_bridge_unit_known:
  assumes "charges_anchored receptor" and "rc \<in> set (charges receptor)"
  shows "\<exists>es. (if c
            then (case first_index (charged_indices rc) of
                    Inl e \<Rightarrow> Inl e
                  | Inr i \<Rightarrow>
                      (case atom_at receptor i of
                         Inl e \<Rightarrow> Inl e
                       | Inr a \<Rightarrow> Inr [(''SALT-BRIDGE_'' @ atom_structure a, 1::int)]))
            else Inr []) = Inr es"
  using assms
  by (cases "charged_indices rc")
    (auto simp: charges_anchored_def list_all_iff indices_known_def first_index_def atom_at_def
      split: option.splits)

text \<open>
  What \<^verbatim>\<open>compute_salt_bridges\<close> counts: the pairs of a receptor group and a ligand
  group with different signs at a distance less than 5.5, under the key
  \<^verbatim>\<open>SALT-BRIDGE_\<close> followed by the structure label of the first atom of the receptor
  group, taken as it is.
\<close>

lemma salt_bridges_counted:
  "let bridges =
         [''SALT-BRIDGE_'' @ atom_structure first_atom.
            rc \<leftarrow> charges receptor, lc \<leftarrow> charges ligand,
            positive lc \<noteq> positive rc \<and>
            dist_to u (charged_coordinates lc) (charged_coordinates rc) < 5.5,
            first_atom \<leftarrow> first_atoms receptor (charged_indices rc)]
   in (\<forall>d. compute_salt_bridges u ligand receptor = Inr d \<longrightarrow> d = tally salt_bridge_keys bridges) \<and>
      (charges_anchored receptor \<longrightarrow>
       compute_salt_bridges u ligand receptor = Inr (tally salt_bridge_keys bridges))"
proof -
  let ?ks = "\<lambda>rc lc.
      if positive lc \<noteq> positive rc \<and>
          dist_to u (charged_coordinates lc) (charged_coordinates rc) < 5.5
       then map (\<lambda>a. ''SALT-BRIDGE_'' @ atom_structure a) (first_atoms receptor (charged_indices rc))
       else []"
  let ?bridges = "concat (map (\<lambda>rc. concat (map (?ks rc) (charges ligand))) (charges receptor))"
  have partial: "d = tally salt_bridge_keys ?bridges"
    if "compute_salt_bridges u ligand receptor = Inr d" for d
    by (rule nested_run_partial [OF compute_salt_bridges_events _ that])
      (erule salt_bridge_unit_Inr)
  have total: "compute_salt_bridges u ligand receptor = Inr (tally salt_bridge_keys ?bridges)"
    if "charges_anchored receptor"
    by (rule nested_run_total [OF compute_salt_bridges_events])
      (erule salt_bridge_unit_Inr, rule salt_bridge_unit_known [OF that])
  show ?thesis
    unfolding Let_def concat_map_singleton
    using partial total by blast
qed

text \<open>
  Claim C7 holds of the pairs that are counted, but not of the key: for a receptor group
  whose first atom has the empty structure label (a cofactor or an ion, as the comments
  of the pi detectors say), the salt bridge is counted under the new key
  \<^verbatim>\<open>SALT-BRIDGE_\<close>, which is none of the three keys of the docstring, and the entry
  \<^verbatim>\<open>SALT-BRIDGE_OTHER\<close> stays at zero. The pi detectors replace the empty label by
  \<^verbatim>\<open>OTHER\<close> at this point.
\<close>

theorem salt_bridge_empty_label:
  "compute_salt_bridges example_utils
     (example_molecule [example_atom (0, 0, 0) ''O'' ''OA'' (- 1) '''' '''']
        [] [\<lparr>charged_coordinates = (0, 0, 0), positive = False, charged_indices = [0]\<rparr>])
     (example_molecule [example_atom (3, 0, 0) ''ZN'' ''ZN'' 2 '''' ''SIDECHAIN'']
        [] [\<lparr>charged_coordinates = (3, 0, 0), positive = True, charged_indices = [0]\<rparr>])
   = Inr (tally salt_bridge_keys [''SALT-BRIDGE_'']) \<and>
   ''SALT-BRIDGE_'' \<notin> set salt_bridge_keys \<and>
   tally salt_bridge_keys [''SALT-BRIDGE_''] ''SALT-BRIDGE_'' = Some 1 \<and>
   tally salt_bridge_keys [''SALT-BRIDGE_''] ''SALT-BRIDGE_OTHER'' = Some 0"
proof -
  let ?lig = "example_molecule [example_atom (0, 0, 0) ''O'' ''OA'' (- 1) '''' '''']
        [] [\<lparr>charged_coordinates = (0, 0, 0), positive = False, charged_indices = [0]\<rparr>]"
  let ?rec = "example_molecule [example_atom (3, 0, 0) ''ZN'' ''ZN'' 2 '''' ''SIDECHAIN'']
        [] [\<lparr>charged_coordinates = (3, 0, 0), positive = True, charged_indices = [0]\<rparr>]"
  have wf: "charges_anchored ?rec"
    by (simp add: charges_anchored_def indices_known_def example_molecule_def)
  have bridges: "[''SALT-BRIDGE_'' @ atom_structure first_atom.
            rc \<leftarrow> charges ?rec, lc \<leftarrow> charges ?lig,
            positive lc \<noteq> positive rc \<and>
            dist_to example_utils (charged_coordinates lc) (charged_coordinates rc) < 5.5,
            first_atom \<leftarrow> first_atoms ?rec (charged_indices rc)] = [''SALT-BRIDGE_'']"
    by (simp add: example_defs first_atoms_def)
  from salt_bridges_counted [where u = example_utils and ligand = ?lig and receptor = ?rec,
      unfolded Let_def bridges] wf
  have "compute_salt_bridges example_utils ?lig ?rec = Inr (tally salt_bridge_keys [''SALT-BRIDGE_''])"
    by blast
  then show ?thesis
    by (simp add: tally_def salt_bridge_keys_def)
qed

section \<open>The key sets of the dictionaries\<close>

lemma compute_hydrophobic_contacts_tally:
  "compute_hydrophobic_contacts u ligand receptor =
     tally residue_structure_keys (hydrophobic_interactions u ligand receptor)"
proof -
  let ?ks = "\<lambda>l r. if dist_to u (coordinates l) (coordinates r) < 4
                  then if element l = ''C'' \<and> element r = ''C''
                       then [side_chain_or_backbone r @ ''_'' @ atom_structure r] else []
                  else []"
  have "compute_hydrophobic_contacts u ligand receptor =
      record_all (map (\<lambda>k. (k, 1))
          (concat (map (\<lambda>l. concat (map (?ks l) (atoms receptor))) (atoms ligand))))
        (zero_dict residue_structure_keys)"
    unfolding compute_hydrophobic_contacts_def
    by (intro fold_keys_record) (simp add: Let_def CONTACT_CUTOFF_def)
  then show ?thesis
    by (simp add: record_all_tally hydrophobic_interactions_def)
qed

lemma compute_active_site_flexibility_tally:
  "compute_active_site_flexibility u ligand receptor =
     tally residue_structure_keys (flexibility_interactions u ligand receptor)"
proof -
  let ?ks = "\<lambda>l r. if dist_to u (coordinates l) (coordinates r) < 4
                  then [side_chain_or_backbone r @ ''_'' @ atom_structure r] else []"
  have "compute_active_site_flexibility u ligand receptor =
      record_all (map (\<lambda>k. (k, 1))
          (concat (map (\<lambda>l. concat (map (?ks l) (atoms receptor))) (atoms ligand))))
        (zero_dict residue_structure_keys)"
    unfolding compute_active_site_flexibility_def
    by (intro fold_keys_record) (simp add: Let_def CONTACT_CUTOFF_def)
  then show ?thesis
    by (simp add: record_all_tally flexibility_interactions_def)
qed

lemma compute_ligand_atom_counts_tally:
  "compute_ligand_atom_counts ligand = tally atom_types (map atomtype (atoms ligand))"
proof -
  have "compute_ligand_atom_counts ligand =
      record_all (map (\<lambda>k. (k, 1)) (concat (map (\<lambda>l. [atomtype l]) (atoms ligand))))
        (zero_dict atom_types)"
    unfolding compute_ligand_atom_counts_def
    by (intro fold_keys_record) simp
  then show ?thesis
    using record_all_tally [of "map atomtype (atoms ligand)" atom_types]
    by (simp add: comp_def)
qed

lemma compute_ligand_receptor_contacts_interactions:
  "compute_ligand_receptor_contacts u ligand receptor =
     (tally atom_pair_keys (contact_interactions u ligand receptor (5 / 2)),
      tally atom_pair_keys (contact_interactions u ligand receptor 4))"
  by (simp add: compute_ligand_receptor_contacts_tally contact_interactions_def)

lemma keys_are_tally: "keys_are V ks (tally V ks)"
  by (auto simp: keys_are_def tally_def dom_def split: if_splits)

lemma keys_are_record_all:
  fixes evs :: "('k \<times> real) list"
  assumes "fst ` set evs = set ks"
  shows "keys_are V ks (record_all evs (zero_dict V))"
  unfolding keys_are_def
proof (intro conjI ballI impI)
  show "dom (record_all evs (zero_dict V)) = set V \<union> set ks"
    using assms by (auto simp: dom_def record_all_zero_dict)
next
  fix k assume "k \<in> set V" "k \<notin> set ks"
  with assms show "record_all evs (zero_dict V) k = Some 0"
    by (simp add: record_all_zero_dict filter_key_absent)
qed

lemma compute_electrostatic_energy_keys:
  assumes "compute_electrostatic_energy u ligand receptor = Inr d"
  shows "keys_are atom_pair_keys (contact_interactions u ligand receptor 4) d"
proof -
  let ?evs = "[(atom_pair_key (atomtype l) (atomtype r),
              charge l * charge r / dist_to u (coordinates l) (coordinates r)
                * ELECTROSTATIC_JOULE_PER_MOL).
               l \<leftarrow> atoms ligand, r \<leftarrow> atoms receptor,
               dist_to u (coordinates l) (coordinates r) < 4]"
  from assms obtain ess where
    ess: "map_err (\<lambda>l.
             case map_err (\<lambda>r.
                    if dist_to u (coordinates l) (coordinates r) < 4
                    then if dist_to u (coordinates l) (coordinates r) = 0
                         then Inl ZeroDivisionError
                         else Inr [(atom_pair_key (atomtype l) (atomtype r),
                                    charge l * charge r / dist_to u (coordinates l) (coordinates r)
                                      * ELECTROSTATIC_JOULE_PER_MOL)]
                    else Inr [])
                  (atoms receptor) of
               Inl e \<Rightarrow> Inl e
             | Inr ess \<Rightarrow> Inr (concat ess))
           (atoms ligand) = Inr ess"
    unfolding compute_electrostatic_energy_events by (auto split: sum.splits)
  have nz: "dist_to u (coordinates l) (coordinates r) \<noteq> 0"
    if "l \<in> set (atoms ligand)" "r \<in> set (atoms receptor)"
      "dist_to u (coordinates l) (coordinates r) < 4" for l r
    using nested_map_err_all [OF ess that(1,2)] that(3) by (auto split: if_splits)
  from compute_electrostatic_energy_Inr [OF nz] assms
  have d: "d = record_all ?evs (zero_dict atom_pair_keys)"
    by simp
  have "fst ` set ?evs = set (contact_interactions u ligand receptor 4)"
    by (force simp: contact_interactions_def image_iff)
  then show ?thesis
    unfolding d by (rule keys_are_record_all)
qed

lemma min_dist_inner_Inr:
  "for_each (\<lambda>receptor_ind min_dist.
       case atom_at receptor receptor_ind of
         Inl e \<Rightarrow> Inl e
       | Inr receptor_at \<Rightarrow>
           let dist = dist_to u p (coordinates receptor_at)
           in Inr (if dist < min_dist then dist else min_dist)) js m0 = Inr m \<Longrightarrow>
   m \<le> c \<longleftrightarrow>
     m0 \<le> c \<or> (\<exists>j \<in> set js. \<exists>b. map_of (all_atoms receptor) j = Some b \<and>
                 dist_to u p (coordinates b) \<le> c)"
proof (induction js arbitrary: m0)
  case Nil
  then show ?case by simp
next
  case (Cons j js)
  from Cons.prems obtain b where b: "map_of (all_atoms receptor) j = Some b"
    by (auto simp: atom_at_def split: option.splits)
  let ?m1 = "if dist_to u p (coordinates b) < m0 then dist_to u p (coordinates b) else m0"
  from Cons.prems b have "for_each (\<lambda>receptor_ind min_dist.
       case atom_at receptor receptor_ind of
         Inl e \<Rightarrow> Inl e
       | Inr receptor_at \<Rightarrow>
           let dist = dist_to u p (coordinates receptor_at)
           in Inr (if dist < min_dist then dist else min_dist)) js ?m1 = Inr m"
    by (simp add: atom_at_def Let_def)
  from Cons.IH [OF this] b show ?case
    by auto
qed

lemma min_dist_outer_Inr:
  "for_each (\<lambda>ligand_ind min_dist.
       case atom_at ligand ligand_ind of
         Inl e \<Rightarrow> Inl e
       | Inr ligand_at \<Rightarrow>
           for_each (\<lambda>receptor_ind min_dist.
               case atom_at receptor receptor_ind of
                 Inl e \<Rightarrow> Inl e
               | Inr receptor_at \<Rightarrow>
                   let dist = dist_to u (coordinates ligand_at) (coordinates receptor_at)
                   in Inr (if dist < min_dist then dist else min_dist))
             js min_dist) is m0 = Inr m \<Longrightarrow>
   m \<le> c \<longleftrightarrow>
     m0 \<le> c \<or> (\<exists>i \<in> set is. \<exists>a. map_of (all_atoms ligand) i = Some a \<and>
                 (\<exists>j \<in> set js. \<exists>b. map_of (all_atoms receptor) j = Some b \<and>
                    dist_to u (coordinates a) (coordinates b) \<le> c))"
proof (induction "is" arbitrary: m0)
  case Nil
  then show ?case by simp
next
  case (Cons i "is")
  from Cons.prems obtain a where a: "map_of (all_atoms ligand) i = Some a"
    by (auto simp: atom_at_def split: option.splits)
  with Cons.prems obtain m1 where
    inner: "for_each (\<lambda>receptor_ind min_dist.
               case atom_at receptor receptor_ind of
                 Inl e \<Rightarrow> Inl e
               | Inr receptor_at \<Rightarrow>
                   let dist = dist_to u (coordinates a) (coordinates receptor_at)
                   in Inr (if dist < min_dist then dist else min_dist)) js m0 = Inr m1"
    and rest: "for_each (\<lambda>ligand_ind min_dist.
       case atom_at ligand ligand_ind of
         Inl e \<Rightarrow> Inl e
       | Inr ligand_at \<Rightarrow>
           for_each (\<lambda>receptor_ind min_dist.
               case atom_at receptor receptor_ind of
                 Inl e \<Rightarrow> Inl e
               | Inr receptor_at \<Rightarrow>
                   let dist = dist_to u (coordinates ligand_at) (coordinates receptor_at)
                   in Inr (if dist < min_dist then dist else min_dist))
             js min_dist) is m1 = Inr m"
    by (auto simp: atom_at_def split: sum.splits)
  from Cons.IH [OF rest] min_dist_inner_Inr [OF inner, of c] a show ?case
    by auto
qed

lemma min_ring_dist_Inr:
  assumes "min_ring_dist u ligand receptor lr rr = Inr m"
  shows "m \<le> 5 \<longleftrightarrow>
     (\<exists>i \<in> set (indices lr). \<exists>a. map_of (all_atoms ligand) i = Some a \<and>
        (\<exists>j \<in> set (indices rr). \<exists>b. map_of (all_atoms receptor) j = Some b \<and>
           dist_to u (coordinates a) (coordinates b) \<le> 5))"
  using min_dist_outer_Inr [OF assms [unfolded min_ring_dist_def], of 5] by simp

lemma compute_pi_T_events:
  "compute_pi_T u ligand receptor =
     (case map_err (\<lambda>lr.
             case map_err (\<lambda>rr.
                    if \<bar>angle_between_points u (norm_vector lr) (norm_vector rr) * 180 / pi - 90\<bar> < 30 \<or>
                       \<bar>angle_between_points u (norm_vector lr) (norm_vector rr) * 180 / pi - 270\<bar> < 30
                    then (case min_ring_dist u ligand receptor lr rr of
                            Inl e \<Rightarrow> Inl e
                          | Inr min_dist \<Rightarrow>
                              if min_dist \<le> 5 \<and>
                                 (dist_to u (project_point_onto_plane u (center lr) (plane_coeff rr))
                                    (center rr) \<le> radius rr + PI_PADDING \<or>
                                  dist_to u (project_point_onto_plane u (center rr) (plane_coeff lr))
                                    (center lr) \<le> radius lr + PI_PADDING)
                              then (case ring_structure_key ''T-SHAPED_'' receptor (indices rr) of
                                      Inl e \<Rightarrow> Inl e
                                    | Inr key \<Rightarrow> Inr [(key, 1)])
                              else Inr [])
                    else Inr [])
                  (aromatic_rings receptor) of
               Inl e \<Rightarrow> Inl e
             | Inr ess \<Rightarrow> Inr (concat ess))
           (aromatic_rings ligand) of
        Inl e \<Rightarrow> Inl e
      | Inr ess \<Rightarrow> Inr (record_all (concat ess) (zero_dict t_shaped_keys)))"
  unfolding compute_pi_T_def
  by (rule nested_for_each_events) (auto simp: Let_def split: sum.splits)

lemma pi_T_unit_Inr:
  assumes "(if \<bar>angle_between_points u (norm_vector lr) (norm_vector rr) * 180 / pi - 90\<bar> < 30 \<or>
               \<bar>angle_between_points u (norm_vector lr) (norm_vector rr) * 180 / pi - 270\<bar> < 30
            then (case min_ring_dist u ligand receptor lr rr of
                    Inl e \<Rightarrow> Inl e
                  | Inr min_dist \<Rightarrow>
                      if min_dist \<le> 5 \<and>
                         (dist_to u (project_point_onto_plane u (center lr) (plane_coeff rr))
                            (center rr) \<le> radius rr + PI_PADDING \<or>
                          dist_to u (project_point_onto_plane u (center rr) (plane_coeff lr))
                            (center lr) \<le> radius lr + PI_PADDING)
                      then (case ring_structure_key ''T-SHAPED_'' receptor (indices rr) of
                              Inl e \<Rightarrow> Inl e
                            | Inr key \<Rightarrow> Inr [(key, 1::int)])
                      else Inr [])
            else Inr []) = Inr es"
  shows "es = map (\<lambda>k. (k, 1))
      (if (\<bar>angle_between_points u (norm_vector lr) (norm_vector rr) * 180 / pi - 90\<bar> < 30 \<or>
           \<bar>angle_between_points u (norm_vector lr) (norm_vector rr) * 180 / pi - 270\<bar> < 30) \<and>
          (\<exists>i \<in> set (indices lr). \<exists>a. map_of (all_atoms ligand) i = Some a \<and>
             (\<exists>j \<in> set (indices rr). \<exists>b. map_of (all_atoms receptor) j = Some b \<and>
                dist_to u (coordinates a) (coordinates b) \<le> 5)) \<and>
          (dist_to u (project_point_onto_plane u (center lr) (plane_coeff rr)) (center rr)
             \<le> radius rr + 0.75 \<or>
           dist_to u (project_point_onto_plane u (center rr) (plane_coeff lr)) (center lr)
             \<le> radius lr + 0.75)
       then map (\<lambda>a. ''T-SHAPED_'' @ structure_or_other a) (first_atoms receptor (indices rr))
       else [])"
proof (cases "\<bar>angle_between_points u (norm_vector lr) (norm_vector rr) * 180 / pi - 90\<bar> < 30 \<or>
               \<bar>angle_between_points u (norm_vector lr) (norm_vector rr) * 180 / pi - 270\<bar> < 30")
  case False
  with assms show ?thesis by auto
next
  case angle: True
  with assms obtain m where m: "min_ring_dist u ligand receptor lr rr = Inr m"
    by (auto split: sum.splits)
  note m_eq = min_ring_dist_Inr [OF m]
  show ?thesis
  proof (cases "m \<le> 5 \<and>
       (dist_to u (project_point_onto_plane u (center lr) (plane_coeff rr)) (center rr)
          \<le> radius rr + PI_PADDING \<or>
        dist_to u (project_point_onto_plane u (center rr) (plane_coeff lr)) (center lr)
          \<le> radius lr + PI_PADDING)")
    case True
    with assms angle m obtain key where
      key: "ring_structure_key ''T-SHAPED_'' receptor (indices rr) = Inr key"
      and es: "es = [(key, 1)]"
      by (auto split: sum.splits)
    from ring_structure_key_Inr [OF key] es True m_eq angle show ?thesis
      by (auto simp: PI_PADDING_def)
  next
    case False
    with assms angle m have "es = []" by (auto split: sum.splits)
    with False m_eq show ?thesis
      by (auto simp: PI_PADDING_def)
  qed
qed

lemma compute_pi_T_interactions:
  assumes "compute_pi_T u ligand receptor = Inr d"
  shows "d = tally t_shaped_keys (t_shaped_interactions u ligand receptor)"
  unfolding t_shaped_interactions_def concat_map_singleton
  by (rule nested_run_partial [OF compute_pi_T_events _ assms]) (erule pi_T_unit_Inr)

lemma pi_cation_unit_Inr:
  assumes "(if positive cation \<and>
               dist_to u (charged_coordinates cation) (center ring) < CATION_PI_CUTOFF \<and>
               dist_to u (project_point_onto_plane u (charged_coordinates cation) (plane_coeff ring))
                 (center ring) < radius ring + PI_PADDING
            then (case ring_structure_key prefix receptor idxs of
                    Inl e \<Rightarrow> Inl e
                  | Inr key \<Rightarrow> Inr [(key, 1::int)])
            else Inr []) = Inr es"
  shows "es = map (\<lambda>k. (k, 1))
      (if positive cation \<and>
          dist_to u (charged_coordinates cation) (center ring) < 6 \<and>
          dist_to u (project_point_onto_plane u (charged_coordinates cation) (plane_coeff ring))
            (center ring) < radius ring + 0.75
       then map (\<lambda>a. prefix @ structure_or_other a) (first_atoms receptor idxs)
       else [])"
proof (cases "positive cation \<and>
               dist_to u (charged_coordinates cation) (center ring) < CATION_PI_CUTOFF \<and>
               dist_to u (project_point_onto_plane u (charged_coordinates cation) (plane_coeff ring))
                 (center ring) < radius ring + PI_PADDING")
  case True
  with assms obtain key where key: "ring_structure_key prefix receptor idxs = Inr key"
    and es: "es = [(key, 1)]"
    by (auto split: sum.splits)
  from ring_structure_key_Inr [OF key] es True show ?thesis
    by (auto simp: PI_PADDING_def CATION_PI_CUTOFF_def)
next
  case False
  with assms have "es = []" by (auto split: sum.splits)
  with False show ?thesis
    by (auto simp: PI_PADDING_def CATION_PI_CUTOFF_def)
qed

lemma compute_pi_cation_events:
  "compute_pi_cation u ligand receptor =
     (case map_err (\<lambda>ring.
             case map_err (\<lambda>cation.
                    if positive cation \<and>
                       dist_to u (charged_coordinates cation) (center ring) < CATION_PI_CUTOFF \<and>
                       dist_to u (project_point_onto_plane u (charged_coordinates cation)
                                    (plane_coeff ring)) (center ring) < radius ring + PI_PADDING
                    then (case ring_structure_key ''PI-CATION_LIGAND-CHARGED_'' receptor
                                 (indices ring) of
                            Inl e \<Rightarrow> Inl e
                          | Inr key \<Rightarrow> Inr [(key, 1)])
                    else Inr [])
                  (charges ligand) of
               Inl e \<Rightarrow> Inl e
             | Inr ess \<Rightarrow> Inr (concat ess))
           (aromatic_rings receptor) of
        Inl e \<Rightarrow> Inl e
      | Inr ess \<Rightarrow>
          (case map_err (\<lambda>ring.
                  case map_err (\<lambda>cation.
                         if positive cation \<and>
                            dist_to u (charged_coordinates cation) (center ring) < CATION_PI_CUTOFF \<and>
                            dist_to u (project_point_onto_plane u (charged_coordinates cation)
                                         (plane_coeff ring)) (center ring) < radius ring + PI_PADDING
                         then (case ring_structure_key ''PI-CATION_RECEPTOR-CHARGED_'' receptor
                                      (charged_indices cation) of
                                 Inl e \<Rightarrow> Inl e
                               | Inr key \<Rightarrow> Inr [(key, 1)])
                         else Inr [])
                       (charges receptor) of
                    Inl e \<Rightarrow> Inl e
                  | Inr ess \<Rightarrow> Inr (concat ess))
                (aromatic_rings ligand) of
             Inl e \<Rightarrow> Inl e
           | Inr ess' \<Rightarrow>
               Inr (record_all (concat ess @ concat ess') (zero_dict pi_cation_keys))))"
proof -
  let ?body = "\<lambda>prefix idxs aromatic charged_group pi_cation.
            if positive charged_group = True
            then if dist_to u (charged_coordinates charged_group) (center aromatic)
                      < CATION_PI_CUTOFF
                 then let charge_projected =
                            project_point_onto_plane u (charged_coordinates charged_group)
                              (plane_coeff aromatic)
                      in if dist_to u charge_projected (center aromatic)
                              < radius aromatic + PI_PADDING
                         then (case ring_structure_key prefix receptor
                                      (idxs aromatic charged_group) of
                                 Inl e \<Rightarrow> Inl e
                               | Inr key \<Rightarrow> Inr (hashtable_entry_add_one pi_cation key 1))
                         else Inr pi_cation
                 else Inr pi_cation
            else Inr pi_cation"
  let ?ev = "\<lambda>prefix idxs ring cation.
                    if positive cation \<and>
                       dist_to u (charged_coordinates cation) (center ring) < CATION_PI_CUTOFF \<and>
                       dist_to u (project_point_onto_plane u (charged_coordinates cation)
                                    (plane_coeff ring)) (center ring) < radius ring + PI_PADDING
                    then (case ring_structure_key prefix receptor (idxs ring cation) of
                            Inl e \<Rightarrow> Inl e
                          | Inr key \<Rightarrow> Inr [(key, 1::int)])
                    else Inr []"
  have loop: "for_each (\<lambda>x. for_each (?body prefix idxs x) ys) xs d =
     (case map_err (\<lambda>x. case map_err (?ev prefix idxs x) ys of
                          Inl e \<Rightarrow> Inl e | Inr ess \<Rightarrow> Inr (concat ess)) xs of
        Inl e \<Rightarrow> Inl e | Inr ess \<Rightarrow> Inr (record_all (concat ess) d))"
    for prefix idxs xs ys and d :: "string \<rightharpoonup> int"
    by (rule nested_for_each_events) (auto simp: Let_def split: sum.splits)
  show ?thesis
    unfolding compute_pi_cation_def
      loop [of "''PI-CATION_LIGAND-CHARGED_''" "\<lambda>aromatic charged_group. indices aromatic"]
      loop [of "''PI-CATION_RECEPTOR-CHARGED_''"
               "\<lambda>aromatic charged_group. charged_indices charged_group"]
    by (simp split: sum.splits)
qed

lemma compute_pi_cation_interactions:
  assumes "compute_pi_cation u ligand receptor = Inr d"
  shows "d = tally pi_cation_keys (pi_cation_interactions u ligand receptor)"
proof -
  from assms obtain ess ess' where
    first: "map_err (\<lambda>ring.
             case map_err (\<lambda>cation.
                    if positive cation \<and>
                       dist_to u (charged_coordinates cation) (center ring) < CATION_PI_CUTOFF \<and>
                       dist_to u (project_point_onto_plane u (charged_coordinates cation)
                                    (plane_coeff ring)) (center ring) < radius ring + PI_PADDING
                    then (case ring_structure_key ''PI-CATION_LIGAND-CHARGED_'' receptor
                                 (indices ring) of
                            Inl e \<Rightarrow> Inl e
                          | Inr key \<Rightarrow> Inr [(key, 1)])
                    else Inr [])
                  (charges ligand) of
               Inl e \<Rightarrow> Inl e
             | Inr ess \<Rightarrow> Inr (concat ess))
           (aromatic_rings receptor) = Inr ess"
    and second: "map_err (\<lambda>ring.
                  case map_err (\<lambda>cation.
                         if positive cation \<and>
                            dist_to u (charged_coordinates cation) (center ring) < CATION_PI_CUTOFF \<and>
                            dist_to u (project_point_onto_plane u (charged_coordinates cation)
                                         (plane_coeff ring)) (center ring) < radius ring + PI_PADDING
                         then (case ring_structure_key ''PI-CATION_RECEPTOR-CHARGED_'' receptor
                                      (charged_indices cation) of
                                 Inl e \<Rightarrow> Inl e
                               | Inr key \<Rightarrow> Inr [(key, 1)])
                         else Inr [])
                       (charges receptor) of
                    Inl e \<Rightarrow> Inl e
                  | Inr ess \<Rightarrow> Inr (concat ess))
                (aromatic_rings ligand) = Inr ess'"
    and d: "d = record_all (concat ess @ concat ess') (zero_dict pi_cation_keys)"
    unfolding compute_pi_cation_events by (auto split: sum.splits)
  let ?ks = "\<lambda>prefix idxs ring cation.
      if positive cation \<and>
          dist_to u (charged_coordinates cation) (center ring) < 6 \<and>
          dist_to u (project_point_onto_plane u (charged_coordinates cation) (plane_coeff ring))
            (center ring) < radius ring + 0.75
       then map (\<lambda>a. prefix @ structure_or_other a) (first_atoms receptor (idxs ring cation))
       else []"
  have ligand_charged: "concat ess = map (\<lambda>k. (k, 1))
      (concat (map (\<lambda>ring. concat (map
         (?ks ''PI-CATION_LIGAND-CHARGED_'' (\<lambda>ring cation. indices ring) ring)
         (charges ligand))) (aromatic_rings receptor)))"
    by (rule nested_map_err_keys [OF first]) (erule pi_cation_unit_Inr)
  have receptor_charged: "concat ess' = map (\<lambda>k. (k, 1))
      (concat (map (\<lambda>ring. concat (map
         (?ks ''PI-CATION_RECEPTOR-CHARGED_'' (\<lambda>ring cation. charged_indices cation) ring)
         (charges receptor))) (aromatic_rings ligand)))"
    by (rule nested_map_err_keys [OF second]) (erule pi_cation_unit_Inr)
  have "concat ess @ concat ess' =
      map (\<lambda>k. (k, 1)) (pi_cation_interactions u ligand receptor)"
    unfolding ligand_charged receptor_charged pi_cation_interactions_def concat_map_singleton
    by simp
  then show ?thesis
    unfolding d by (simp only: record_all_tally)
qed

lemma compute_salt_bridges_interactions:
  assumes "compute_salt_bridges u ligand receptor = Inr d"
  shows "d = tally salt_bridge_keys (salt_bridge_interactions u ligand receptor)"
  using salt_bridges_counted [where u = u and ligand = ligand and receptor = receptor] assms
  by (simp only: salt_bridge_interactions_def Let_def)

text \<open>With declared labels, every key of an interaction is a pre-declared key.\<close>

lemma first_atoms_subset: "set (first_atoms mol idxs) \<subseteq> set (atoms mol)"
proof
  fix a assume "a \<in> set (first_atoms mol idxs)"
  then obtain i where "map_of (all_atoms mol) i = Some a"
    by (auto simp: first_atoms_def split: list.splits option.splits)
  then have "(i, a) \<in> set (all_atoms mol)"
    by (rule map_of_SomeD)
  then show "a \<in> set (atoms mol)"
    by (force simp: atoms_def)
qed

lemma atom_pair_key_declared:
  "a \<in> set atom_types \<Longrightarrow> b \<in> set atom_types \<Longrightarrow> atom_pair_key a b \<in> set atom_pair_keys"
  unfolding atom_pair_keys_def by force

lemma declared_atom_types:
  "declared_labels ligand receptor \<Longrightarrow> l \<in> set (atoms ligand) \<Longrightarrow> atomtype l \<in> set atom_types"
  "declared_labels ligand receptor \<Longrightarrow> r \<in> set (atoms receptor) \<Longrightarrow> atomtype r \<in> set atom_types"
  by (auto simp: declared_labels_def list_all_iff)

lemma declared_residue:
  assumes "declared_labels ligand receptor" and "r \<in> set (atoms receptor)"
  shows "side_chain_or_backbone r \<in> {''SIDECHAIN'', ''BACKBONE''}"
    and "atom_structure r \<in> {''ALPHA'', ''BETA'', ''OTHER''}"
  using assms by (auto simp: declared_labels_def list_all_iff)

lemma declared_first_atom:
  assumes "declared_labels ligand receptor" and "a \<in> set (first_atoms receptor idxs)"
  shows "atom_structure a \<in> {''ALPHA'', ''BETA'', ''OTHER''}"
    and "structure_or_other a \<in> {''ALPHA'', ''BETA'', ''OTHER''}"
proof -
  from assms(2) first_atoms_subset have "a \<in> set (atoms receptor)" by blast
  from declared_residue(2) [OF assms(1) this]
  show "atom_structure a \<in> {''ALPHA'', ''BETA'', ''OTHER''}" .
  then show "structure_or_other a \<in> {''ALPHA'', ''BETA'', ''OTHER''}"
    by (auto simp: structure_or_other_def)
qed

lemma contact_interactions_declared:
  assumes "declared_labels ligand receptor"
  shows "set (contact_interactions u ligand receptor cutoff) \<subseteq> set atom_pair_keys"
proof
  fix k assume "k \<in> set (contact_interactions u ligand receptor cutoff)"
  then obtain l r where "l \<in> set (atoms ligand)" "r \<in> set (atoms receptor)"
    and k: "k = atom_pair_key (atomtype l) (atomtype r)"
    by (auto simp: contact_interactions_def)
  with declared_atom_types [OF assms] show "k \<in> set atom_pair_keys"
    unfolding k by (intro atom_pair_key_declared)
qed

lemma atom_counts_declared:
  "declared_labels ligand receptor \<Longrightarrow> set (map atomtype (atoms ligand)) \<subseteq> set atom_types"
  by (auto simp: declared_labels_def list_all_iff)

lemma residue_key_declared:
  "scb \<in> {''SIDECHAIN'', ''BACKBONE''} \<Longrightarrow> label \<in> {''ALPHA'', ''BETA'', ''OTHER''} \<Longrightarrow>
   scb @ ''_'' @ label \<in> set residue_structure_keys"
  by (auto simp: residue_structure_keys_def)

lemma hbond_key_declared:
  "donor \<in> {''LIGAND'', ''RECEPTOR''} \<Longrightarrow> scb \<in> {''SIDECHAIN'', ''BACKBONE''} \<Longrightarrow>
   label \<in> {''ALPHA'', ''BETA'', ''OTHER''} \<Longrightarrow>
   ''HDONOR-'' @ donor @ ''_'' @ scb @ ''_'' @ label \<in> set hbond_keys"
  by (auto simp: hbond_keys_def)

lemma hydrophobic_interactions_declared:
  assumes "declared_labels ligand receptor"
  shows "set (hydrophobic_interactions u ligand receptor) \<subseteq> set residue_structure_keys"
proof
  fix k assume "k \<in> set (hydrophobic_interactions u ligand receptor)"
  then obtain r where "r \<in> set (atoms receptor)"
    and k: "k = side_chain_or_backbone r @ ''_'' @ atom_structure r"
    unfolding hydrophobic_interactions_def
    by (auto simp del: append.simps split: if_splits)
  with declared_residue [OF assms] show "k \<in> set residue_structure_keys"
    unfolding k by (intro residue_key_declared)
qed

lemma flexibility_interactions_declared:
  assumes "declared_labels ligand receptor"
  shows "set (flexibility_interactions u ligand receptor) \<subseteq> set residue_structure_keys"
proof
  fix k assume "k \<in> set (flexibility_interactions u ligand receptor)"
  then obtain r where "r \<in> set (atoms receptor)"
    and k: "k = side_chain_or_backbone r @ ''_'' @ atom_structure r"
    unfolding flexibility_interactions_def
    by (auto simp del: append.simps split: if_splits)
  with declared_residue [OF assms] show "k \<in> set residue_structure_keys"
    unfolding k by (intro residue_key_declared)
qed

lemma hydrogen_bond_interactions_declared:
  assumes "declared_labels ligand receptor"
  shows "set (hydrogen_bond_interactions u ligand receptor) \<subseteq> set hbond_keys"
proof
  fix k assume "k \<in> set (hydrogen_bond_interactions u ligand receptor)"
  then obtain donor r where "r \<in> set (atoms receptor)" "donor \<in> {''LIGAND'', ''RECEPTOR''}"
    and k: "k = ''HDONOR-'' @ donor @ ''_'' @ side_chain_or_backbone r @ ''_'' @ atom_structure r"
    unfolding hydrogen_bond_interactions_def
    by (auto simp del: append.simps split: if_splits)
  with declared_residue [OF assms] show "k \<in> set hbond_keys"
    unfolding k by (intro hbond_key_declared) auto
qed

lemma stacking_interactions_declared:
  assumes "declared_labels ligand receptor"
  shows "set (stacking_interactions u ligand receptor) \<subseteq> set stacking_keys"
  using declared_first_atom(2) [OF assms]
  by (auto simp: stacking_interactions_def stacking_keys_def split: if_splits)

lemma t_shaped_interactions_declared:
  assumes "declared_labels ligand receptor"
  shows "set (t_shaped_interactions u ligand receptor) \<subseteq> set t_shaped_keys"
  using declared_first_atom(2) [OF assms]
  by (auto simp: t_shaped_interactions_def t_shaped_keys_def split: if_splits)

lemma pi_cation_key_declared:
  "prefix \<in> {''PI-CATION_LIGAND-CHARGED_'', ''PI-CATION_RECEPTOR-CHARGED_''} \<Longrightarrow>
   label \<in> {''ALPHA'', ''BETA'', ''OTHER''} \<Longrightarrow> prefix @ label \<in> set pi_cation_keys"
  by (auto simp: pi_cation_keys_def)

lemma pi_cation_interactions_declared:
  assumes "declared_labels ligand receptor"
  shows "set (pi_cation_interactions u ligand receptor) \<subseteq> set pi_cation_keys"
proof
  fix k assume "k \<in> set (pi_cation_interactions u ligand receptor)"
  then obtain prefix idxs a where
    "prefix \<in> {''PI-CATION_LIGAND-CHARGED_'', ''PI-CATION_RECEPTOR-CHARGED_''}"
    and "a \<in> set (first_atoms receptor idxs)"
    and k: "k = prefix @ structure_or_other a"
    unfolding pi_cation_interactions_def
    by (auto simp del: append.simps split: if_splits)
  with declared_first_atom(2) [OF assms] show "k \<in> set pi_cation_keys"
    unfolding k by (intro pi_cation_key_declared)
qed

lemma salt_bridge_interactions_declared:
  assumes "declared_labels ligand receptor"
  shows "set (salt_bridge_interactions u ligand receptor) \<subseteq> set salt_bridge_keys"
  using declared_first_atom(1) [OF assms]
  by (auto simp: salt_bridge_interactions_def salt_bridge_keys_def split: if_splits)

lemma keys_are_exact: "keys_are V ks d \<Longrightarrow> set ks \<subseteq> set V \<Longrightarrow> dom d = set V"
  by (auto simp: keys_are_def)

text \<open>
  Claim C2, as amended. Every dictionary that a detector returns holds its pre-declared
  keys together with the keys of the interactions it found, and every pre-declared key
  under which no interaction was found has the value zero: the two contact
  dictionaries, the electrostatic energies, the ligand atom counts, the hydrogen bonds,
  the hydrophobic contacts, the pi-pi stacks, the T-shaped pairs, the pi-cation pairs,
  the salt bridges and the active-site flexibility (for the detectors that read atoms
  through ring and group indices, every dictionary they return). When every atom type is
  one of \<^verbatim>\<open>Binana.atom_types\<close> and every receptor atom is labelled as a side-chain or
  backbone atom of an alpha, beta or other structure, every key of an interaction is a
  pre-declared key, so each dictionary contains exactly its pre-declared key set.
\<close>

theorem dictionary_key_sets:
  "keys_are atom_pair_keys (contact_interactions u ligand receptor (5 / 2))
     (fst (compute_ligand_receptor_contacts u ligand receptor)) \<and>
   keys_are atom_pair_keys (contact_interactions u ligand receptor 4)
     (snd (compute_ligand_receptor_contacts u ligand receptor)) \<and>
   (\<forall>d. compute_electrostatic_energy u ligand receptor = Inr d \<longrightarrow>
      keys_are atom_pair_keys (contact_interactions u ligand receptor 4) d) \<and>
   keys_are atom_types (map atomtype (atoms ligand)) (compute_ligand_atom_counts ligand) \<and>
   keys_are hbond_keys (hydrogen_bond_interactions u ligand receptor)
     (compute_hydrogen_bonds u ligand receptor) \<and>
   keys_are residue_structure_keys (hydrophobic_interactions u ligand receptor)
     (compute_hydrophobic_contacts u ligand receptor) \<and>
   (\<forall>d. compute_pi_pi_stacking u ligand receptor = Inr d \<longrightarrow>
      keys_are stacking_keys (stacking_interactions u ligand receptor) d) \<and>
   (\<forall>d. compute_pi_T u ligand receptor = Inr d \<longrightarrow>
      keys_are t_shaped_keys (t_shaped_interactions u ligand receptor) d) \<and>
   (\<forall>d. compute_pi_cation u ligand receptor = Inr d \<longrightarrow>
      keys_are pi_cation_keys (pi_cation_interactions u ligand receptor) d) \<and>
   (\<forall>d. compute_salt_bridges u ligand receptor = Inr d \<longrightarrow>
      keys_are salt_bridge_keys (salt_bridge_interactions u ligand receptor) d) \<and>
   keys_are residue_structure_keys (flexibility_interactions u ligand receptor)
     (compute_active_site_flexibility u ligand receptor) \<and>
   (declared_labels ligand receptor \<longrightarrow>
      set (contact_interactions u ligand receptor (5 / 2)) \<subseteq> set atom_pair_keys \<and>
      set (contact_interactions u ligand receptor 4) \<subseteq> set atom_pair_keys \<and>
      set (map atomtype (atoms ligand)) \<subseteq> set atom_types \<and>
      set (hydrogen_bond_interactions u ligand receptor) \<subseteq> set hbond_keys \<and>
      set (hydrophobic_interactions u ligand receptor) \<subseteq> set residue_structure_keys \<and>
      set (stacking_interactions u ligand receptor) \<subseteq> set stacking_keys \<and>
      set (t_shaped_interactions u ligand receptor) \<subseteq> set t_shaped_keys \<and>
      set (pi_cation_interactions u ligand receptor) \<subseteq> set pi_cation_keys \<and>
      set (salt_bridge_interactions u ligand receptor) \<subseteq> set salt_bridge_keys \<and>
      set (flexibility_interactions u ligand receptor) \<subseteq> set residue_structure_keys)"
proof -
  have contacts:
    "keys_are atom_pair_keys (contact_interactions u ligand receptor (5 / 2))
       (fst (compute_ligand_receptor_contacts u ligand receptor))"
    "keys_are atom_pair_keys (contact_interactions u ligand receptor 4)
       (snd (compute_ligand_receptor_contacts u ligand receptor))"
    unfolding compute_ligand_receptor_contacts_interactions fst_conv snd_conv
    by (rule keys_are_tally)+
  have counting:
    "keys_are atom_types (map atomtype (atoms ligand)) (compute_ligand_atom_counts ligand)"
    "keys_are hbond_keys (hydrogen_bond_interactions u ligand receptor)
       (compute_hydrogen_bonds u ligand receptor)"
    "keys_are residue_structure_keys (hydrophobic_interactions u ligand receptor)
       (compute_hydrophobic_contacts u ligand receptor)"
    "keys_are residue_structure_keys (flexibility_interactions u ligand receptor)
       (compute_active_site_flexibility u ligand receptor)"
    by (simp_all only: compute_ligand_atom_counts_tally compute_hydrogen_bonds_interactions
        compute_hydrophobic_contacts_tally compute_active_site_flexibility_tally keys_are_tally)
  have stacking: "keys_are stacking_keys (stacking_interactions u ligand receptor) d"
    if "compute_pi_pi_stacking u ligand receptor = Inr d" for d
  proof -
    from compute_pi_pi_stacking_interactions [of u ligand receptor] that
    have "d = tally stacking_keys (stacking_interactions u ligand receptor)"
      by blast
    then show ?thesis
      by (simp only: keys_are_tally)
  qed
  have t_shaped: "keys_are t_shaped_keys (t_shaped_interactions u ligand receptor) d"
    if "compute_pi_T u ligand receptor = Inr d" for d
    unfolding compute_pi_T_interactions [OF that] by (rule keys_are_tally)
  have pi_cation: "keys_are pi_cation_keys (pi_cation_interactions u ligand receptor) d"
    if "compute_pi_cation u ligand receptor = Inr d" for d
    unfolding compute_pi_cation_interactions [OF that] by (rule keys_are_tally)
  have salt_bridges: "keys_are salt_bridge_keys (salt_bridge_interactions u ligand receptor) d"
    if "compute_salt_bridges u ligand receptor = Inr d" for d
    unfolding compute_salt_bridges_interactions [OF that] by (rule keys_are_tally)
  show ?thesis
    by (intro conjI allI impI contacts counting stacking t_shaped pi_cation salt_bridges
        compute_electrostatic_energy_keys contact_interactions_declared atom_counts_declared
        hydrogen_bond_interactions_declared hydrophobic_interactions_declared
        stacking_interactions_declared t_shaped_interactions_declared
        pi_cation_interactions_declared salt_bridge_interactions_declared
        flexibility_interactions_declared)
      assumption+
qed

text \<open>
  The example ligand and receptor have declared labels, every detector returns on them,
  and each of the eleven dictionaries has exactly its pre-declared keys.
\<close>

theorem dictionary_key_sets_witness:
  "declared_labels example_ligand example_receptor \<and>
   dom (fst (compute_ligand_receptor_contacts example_utils example_ligand example_receptor))
     = set atom_pair_keys \<and>
   dom (snd (compute_ligand_receptor_contacts example_utils example_ligand example_receptor))
     = set atom_pair_keys \<and>
   (\<exists>d. compute_electrostatic_energy example_utils example_ligand example_receptor = Inr d \<and>
        dom d = set atom_pair_keys) \<and>
   dom (compute_ligand_atom_counts example_ligand) = set atom_types \<and>
   dom (compute_hydrogen_bonds example_utils example_ligand example_receptor) = set hbond_keys \<and>
   dom (compute_hydrophobic_contacts example_utils example_ligand example_receptor)
     = set residue_structure_keys \<and>
   (\<exists>d. compute_pi_pi_stacking example_utils example_ligand example_receptor = Inr d \<and>
        dom d = set stacking_keys) \<and>
   (\<exists>d. compute_pi_T example_utils example_ligand example_receptor = Inr d \<and>
        dom d = set t_shaped_keys) \<and>
   (\<exists>d. compute_pi_cation example_utils example_ligand example_receptor = Inr d \<and>
        dom d = set pi_cation_keys) \<and>
   (\<exists>d. compute_salt_bridges example_utils example_ligand example_receptor = Inr d \<and>
        dom d = set salt_bridge_keys) \<and>
   dom (compute_active_site_flexibility example_utils example_ligand example_receptor)
     = set residue_structure_keys"
proof -
  note inst = dictionary_key_sets [where u = example_utils and ligand = example_ligand
      and receptor = example_receptor]
  have declared: "declared_labels example_ligand example_receptor"
    by (simp add: declared_labels_def example_ligand_def example_receptor_def example_defs
        atom_types_def)
  obtain energies where
    energies: "compute_electrostatic_energy example_utils example_ligand example_receptor
      = Inr energies"
    by (simp add: compute_electrostatic_energy_def example_ligand_def example_receptor_def
        example_defs CONTACT_CUTOFF_def Let_def)
  obtain stacks where
    stacks: "compute_pi_pi_stacking example_utils example_ligand example_receptor = Inr stacks"
    by (simp add: compute_pi_pi_stacking_def example_ligand_def example_receptor_def
        example_defs PI_PI_CUTOFF_def PI_PADDING_def Let_def norm_vector_def atom_at_def
        ring_structure_key_def first_index_def)
  obtain t_shaped where
    t_shaped: "compute_pi_T example_utils example_ligand example_receptor = Inr t_shaped"
    by (simp add: compute_pi_T_def example_ligand_def example_receptor_def
        example_defs PI_PADDING_def Let_def norm_vector_def atom_at_def min_ring_dist_def
        ring_structure_key_def first_index_def)
  obtain cations where
    cations: "compute_pi_cation example_utils example_ligand example_receptor = Inr cations"
    by (simp add: compute_pi_cation_def example_ligand_def example_receptor_def
        example_defs CATION_PI_CUTOFF_def PI_PADDING_def Let_def atom_at_def
        ring_structure_key_def first_index_def)
  obtain bridges where
    bridges: "compute_salt_bridges example_utils example_ligand example_receptor = Inr bridges"
    by (simp add: compute_salt_bridges_def example_ligand_def example_receptor_def
        example_defs SALT_BRIDGE_CUTOFF_def Let_def atom_at_def first_index_def)
  from inst declared have
    "dom (fst (compute_ligand_receptor_contacts example_utils example_ligand example_receptor))
       = set atom_pair_keys"
    by (metis keys_are_exact)
  moreover from inst declared have
    "dom (snd (compute_ligand_receptor_contacts example_utils example_ligand example_receptor))
       = set atom_pair_keys"
    by (metis keys_are_exact)
  moreover from inst declared energies have "dom energies = set atom_pair_keys"
    by (metis keys_are_exact)
  moreover from inst declared have
    "dom (compute_ligand_atom_counts example_ligand) = set atom_types"
    by (metis keys_are_exact)
  moreover from inst declared have
    "dom (compute_hydrogen_bonds example_utils example_ligand example_receptor) = set hbond_keys"
    by (metis keys_are_exact)
  moreover from inst declared have
    "dom (compute_hydrophobic_contacts example_utils example_ligand example_receptor)
       = set residue_structure_keys"
    by (metis keys_are_exact)
  moreover from inst declared stacks have "dom stacks = set stacking_keys"
    by (metis keys_are_exact)
  moreover from inst declared t_shaped have "dom t_shaped = set t_shaped_keys"
    by (metis keys_are_exact)
  moreover from inst declared cations have "dom cations = set pi_cation_keys"
    by (metis keys_are_exact)
  moreover from inst declared bridges have "dom bridges = set salt_bridge_keys"
    by (metis keys_are_exact)
  moreover from inst declared have
    "dom (compute_active_site_flexibility example_utils example_ligand example_receptor)
       = set residue_structure_keys"
    by (metis keys_are_exact)
  ultimately show ?thesis
    using declared energies stacks t_shaped cations bridges by simp
qed

text \<open>
  The claim as stated, for every input, fails on a ligand with an atom whose type is not
  one of \<^verbatim>\<open>Binana.atom_types\<close> (boron here): \<^verbatim>\<open>hashtable_entry_add_one\<close> adds the new
  key to the dictionary of the ligand atom counts.
\<close>

theorem atom_counts_new_key_counterexample:
  "compute_ligand_atom_counts
     (example_molecule [example_atom (0, 0, 0) ''B'' ''B'' 0 '''' ''''] [] []) ''B'' = Some 1 \<and>
   ''B'' \<notin> set atom_types"
  by (simp add: compute_ligand_atom_counts_def example_defs hashtable_entry_add_one_def
      zero_dict_def atom_types_def)

section \<open>Vectors\<close>

lemma fold_fancy_index:
  "c < length v \<Longrightarrow>
   fold (\<lambda>p v. v[p := z ! p + 1]) positions v ! c =
     (if c \<in> set positions then z ! c + 1 else v ! c)"
  by (induction positions arbitrary: v) (auto simp: nth_list_update)

lemma length_fold_update: "length (fold (\<lambda>p v. v[p := g p v]) positions v) = length v"
  by (induction positions arbitrary: v) auto

lemma axis_index_Inr: "axis_index n i = Inr c \<Longrightarrow> c < n"
  by (auto simp: axis_index_def split: if_splits)

lemma map_err_set:
  "map_err f xs = Inr ys \<Longrightarrow> y \<in> set ys \<longleftrightarrow> (\<exists>x \<in> set xs. f x = Inr y)"
  by (induction xs arbitrary: ys) (auto split: sum.splits)

lemma map_err_total:
  "\<forall>x \<in> set xs. \<exists>y. f x = Inr y \<Longrightarrow> \<exists>ys. map_err f xs = Inr ys"
  by (induction xs) (auto split: sum.splits)

lemma vectorize_dict:
  assumes "vectorize h (Some d) fl p = Inr v"
  shows "length v = 2 ^ p"
    and "c < 2 ^ p \<Longrightarrow>
      v ! c = (if \<exists>(k, f) \<in> set d. \<exists>i. h f p = Inr i \<and> axis_index (2 ^ p) i = Inr c then 1 else 0)"
proof -
  from assms obtain on_channels positions where
    ch: "map_err (\<lambda>(key, feature). h feature p) d = Inr on_channels"
    and pos: "map_err (axis_index (2 ^ p)) on_channels = Inr positions"
    and v: "v = fold (\<lambda>q v. v[q := replicate (2 ^ p) 0 ! q + 1]) positions (replicate (2 ^ p) 0)"
    by (auto simp: vectorize_def bind_err_def Let_def split: sum.splits)
  show "length v = 2 ^ p"
    unfolding v by (simp add: length_fold_update)
  assume c: "c < 2 ^ p"
  have "c \<in> set positions \<longleftrightarrow>
      (\<exists>i \<in> set on_channels. axis_index (2 ^ p) i = Inr c)"
    by (rule map_err_set [OF pos])
  also have "\<dots> \<longleftrightarrow> (\<exists>i. (\<exists>x \<in> set d. (\<lambda>(key, feature). h feature p) x = Inr i) \<and>
      axis_index (2 ^ p) i = Inr c)"
    using map_err_set [OF ch] by blast
  also have "\<dots> \<longleftrightarrow> (\<exists>(k, f) \<in> set d. \<exists>i. h f p = Inr i \<and> axis_index (2 ^ p) i = Inr c)"
    by (auto simp: split_def)
  finally show "v ! c =
      (if \<exists>(k, f) \<in> set d. \<exists>i. h f p = Inr i \<and> axis_index (2 ^ p) i = Inr c then 1 else 0)"
    unfolding v using c by (simp add: fold_fancy_index)
qed

lemma vectorize_dict_total:
  assumes "\<And>k f. (k, f) \<in> set d \<Longrightarrow> \<exists>i. h f p = Inr i \<and> 0 \<le> i \<and> i < 2 ^ p"
  shows "\<exists>v. vectorize h (Some d) fl p = Inr v"
proof -
  from assms have "\<exists>ys. map_err (\<lambda>(key, feature). h feature p) d = Inr ys"
    by (intro map_err_total) fastforce
  then obtain on_channels where
    ch: "map_err (\<lambda>(key, feature). h feature p) d = Inr on_channels" ..
  have "\<exists>c. axis_index (2 ^ p) i = Inr c" if "i \<in> set on_channels" for i
  proof -
    from that map_err_set [OF ch] obtain k f where "(k, f) \<in> set d" "h f p = Inr i"
      by auto
    with assms [of k f] have "0 \<le> i" "i < 2 ^ p" by auto
    then show ?thesis by (simp add: axis_index_def)
  qed
  then have "\<exists>ys. map_err (axis_index (2 ^ p)) on_channels = Inr ys"
    by (intro map_err_total) blast
  with ch show ?thesis
    by (auto simp: vectorize_def bind_err_def Let_def)
qed

text \<open>
  Claim C9, as amended. Every vector that \<^verbatim>\<open>vectorize\<close> returns has length
  \<open>2 ^ channel_power\<close>. Given a feature dictionary, the entry at a position is 1 when
  at least one feature of the dictionary hashes to that position and 0 otherwise,
  however many features hash there (a hash value \<open>i\<close> selects position \<open>i\<close>, or
  \<open>i + 2 ^ channel_power\<close> when it is negative, as numpy indexes): a feature
  contributes to the position it hashes to and to no other, but two features that
  collide leave a 1, not a 2. The function returns a vector whenever every hash value
  lies in \<open>[0, 2 ^ channel_power)\<close>. Given a feature list and no dictionary, entry 0
  holds the number of list elements and every other entry is 0.
\<close>

theorem vectorize_positions:
  "(\<forall>v. vectorize h fd fl p = Inr v \<longrightarrow> length v = 2 ^ p) \<and>
   (\<forall>v. vectorize h (Some d) fl p = Inr v \<longrightarrow>
      (\<forall>c < 2 ^ p. v ! c =
         (if \<exists>(k, f) \<in> set d. \<exists>i. h f p = Inr i \<and> axis_index (2 ^ p) i = Inr c
          then 1 else 0))) \<and>
   ((\<forall>(k, f) \<in> set d. \<exists>i. h f p = Inr i \<and> 0 \<le> i \<and> i < 2 ^ p) \<longrightarrow>
      (\<exists>v. vectorize h (Some d) fl p = Inr v)) \<and>
   vectorize h None (Some l) p = Inr ((replicate (2 ^ p) 0)[0 := real (length l)])"
proof (intro conjI allI impI)
  fix v assume "vectorize h fd fl p = Inr v"
  then show "length v = 2 ^ p"
  proof (cases fd)
    case None
    with \<open>vectorize h fd fl p = Inr v\<close> show ?thesis
      by (auto simp: vectorize_def Let_def split: option.splits)
  next
    case (Some d')
    with \<open>vectorize h fd fl p = Inr v\<close> vectorize_dict(1) show ?thesis by blast
  qed
next
  fix v c assume "vectorize h (Some d) fl p = Inr v" "c < (2::nat) ^ p"
  then show "v ! c =
         (if \<exists>(k, f) \<in> set d. \<exists>i. h f p = Inr i \<and> axis_index (2 ^ p) i = Inr c
          then 1 else 0)"
    by (rule vectorize_dict(2))
next
  assume "\<forall>(k, f) \<in> set d. \<exists>i. h f p = Inr i \<and> 0 \<le> i \<and> i < 2 ^ p"
  then show "\<exists>v. vectorize h (Some d) fl p = Inr v"
    by (intro vectorize_dict_total) auto
next
  show "vectorize h None (Some l) p = Inr ((replicate (2 ^ p) 0)[0 := real (length l)])"
    by (simp add: vectorize_def)
qed

text \<open>
  Three fragments of lengths 2, 2 and 3 hashed into four positions: positions 2 and 3
  hold 1. A list of two contacts gives 2 at position 0.
\<close>

theorem vectorize_positions_witness:
  "(\<exists>v. vectorize example_hash
           (Some [(0::nat, Text ''ab''), (1, Text ''cd''), (2, Text ''xyz'')])
           (None :: unit list option) 2 = Inr v \<and>
         length v = 4 \<and> v ! 0 = 0 \<and> v ! 1 = 0 \<and> v ! 2 = 1 \<and> v ! 3 = 1) \<and>
   vectorize example_hash (None :: (nat \<times> feature) list option) (Some [(), ()]) 2 = Inr [2, 0, 0, 0]"
proof -
  let ?d = "[(0::nat, Text ''ab''), (1, Text ''cd''), (2, Text ''xyz'')]"
  note inst = vectorize_positions [where h = example_hash and d = ?d and p = 2
      and fd = "Some ?d" and fl = "None :: unit list option"]
  have "\<forall>(k, f) \<in> set ?d. \<exists>i. example_hash f 2 = Inr i \<and> 0 \<le> i \<and> i < 2 ^ 2"
    by (simp add: example_hash_def)
  with inst obtain v where v: "vectorize example_hash (Some ?d) (None :: unit list option) 2 = Inr v"
    by blast
  with inst have len: "length v = 2 ^ 2"
    and at: "\<And>c. c < 2 ^ 2 \<Longrightarrow> v ! c =
         (if \<exists>(k, f) \<in> set ?d. \<exists>i. example_hash f 2 = Inr i \<and> axis_index (2 ^ 2) i = Inr c
          then 1 else 0)"
    by blast+
  have "v ! 0 = 0" "v ! 1 = 0" "v ! 2 = 1" "v ! 3 = 1"
    by (simp_all add: at example_hash_def axis_index_def)
  moreover have "vectorize example_hash (None :: (nat \<times> feature) list option) (Some [(), ()]) 2 =
      Inr [2, 0, 0, 0]"
  proof -
    from vectorize_positions [where h = example_hash and p = 2 and l = "[(), ()]"
        and d = "[] :: (nat \<times> feature) list" and fd = "None :: (nat \<times> feature) list option"
        and fl = "None :: unit list option"]
    have "vectorize example_hash (None :: (nat \<times> feature) list option) (Some [(), ()]) 2 =
        Inr ((replicate (2 ^ 2) 0)[0 := real (length [(), ()])])"
      by blast
    then show ?thesis by (simp add: numeral_eq_Suc)
  qed
  ultimately show ?thesis using v len by auto
qed

text \<open>
  Two atoms with fragments that hash to position 2: the vector holds 1 there, where
  one increment for each present feature would give 2.
\<close>

theorem vectorize_counting_counterexample:
  "vectorize example_hash (Some [(0::nat, Text ''ab''), (1, Text ''cd'')])
     (None :: unit list option) 2 = Inr [0, 0, 1, 0] \<and>
   vectorize_counting example_hash [(0::nat, Text ''ab''), (1, Text ''cd'')] 2 = Inr [0, 0, 2, 0]"
  by (simp add: vectorize_def vectorize_counting_def bind_err_def example_hash_def
      axis_index_def numeral_eq_Suc)

section \<open>Voxel tensors\<close>

lemma increment_by_features_short:
  "length voxel \<le> 3 \<Longrightarrow> increment_by_features feature_tensor voxel features = Inl IndexError"
  by (simp add: increment_by_features_def bind_err_def array_get_def split: sum.splits)

lemma fold_try_continue_short:
  "\<forall>voxel \<in> set voxels. length voxel \<le> 3 \<Longrightarrow>
   fold (\<lambda>voxel feature_tensor.
           try_continue feature_tensor (increment_by_features feature_tensor voxel features))
     voxels feature_tensor = feature_tensor"
  by (induction voxels) (simp_all add: increment_by_features_short try_continue_def)

lemma convert_atom_to_voxel_length:
  "convert_atom_to_voxel molecule_xyz atom_index bw vw = Inr voxels \<Longrightarrow>
   \<forall>voxel \<in> set voxels. length voxel = 3"
  by (auto simp: convert_atom_to_voxel_def split: if_splits prod.splits)

text \<open>
  In the dictionary mode without a hash function the statement under \<^verbatim>\<open>try\<close> reads
  \<^verbatim>\<open>voxel[3]\<close> of an array of three indices, so it raises for every voxel and the
  \<^verbatim>\<open>except\<close> clause skips it: whatever the dictionary holds, the tensor stays zero.
\<close>

lemma voxelize_without_hash_stays_zero:
  assumes "voxelize self convert_atom_to_voxel None coords (Some d) fl channel_power nb_channel
      = Inr feature_tensor"
  shows "entry feature_tensor = (\<lambda>_. 0)"
proof -
  have loop: "for_each (\<lambda>(key, features) feature_tensor.
        case convert_atom_to_voxel coords key bw vw of
          Inl e \<Rightarrow> Inl e
        | Inr voxels \<Rightarrow>
            Inr (fold (\<lambda>voxel feature_tensor.
                   try_continue feature_tensor
                     (case None of
                        Some h \<Rightarrow> increment_hashed feature_tensor voxel h features channel_power
                      | None \<Rightarrow> increment_by_features feature_tensor voxel features))
                 voxels feature_tensor))
      d t = Inr t' \<Longrightarrow> t' = t" for bw vw t t'
  proof (induction d arbitrary: t)
    case Nil
    then show ?case by simp
  next
    case (Cons x d)
    obtain key features where x: "x = (key, features)" by (cases x)
    from Cons.prems x obtain voxels where
      voxels: "convert_atom_to_voxel coords key bw vw = Inr voxels"
      by (auto split: sum.splits)
    from convert_atom_to_voxel_length [OF voxels]
    have "\<forall>voxel \<in> set voxels. length voxel \<le> 3" by simp
    from fold_try_continue_short [OF this] Cons.prems x voxels Cons.IH [of t]
    show ?case by simp
  qed
  from assms show ?thesis
    by (auto simp: voxelize_def Let_def zeros_def split: if_splits dest!: loop)
qed

text \<open>
  Claim C4 fails in the dictionary mode without a hash function. An atom at the origin
  of a box of width 16 with unit voxels lies in the cell \<open>(8, 8, 8)\<close>, inside the
  tensor of shape \<open>(16, 16, 16, 1)\<close>. With the feature dictionary \<open>{0: 1}\<close> and no hash
  function (as \<^verbatim>\<open>transform\<close> calls \<^verbatim>\<open>voxelize\<close> for pi stacking and cation-pi) the
  increment is skipped and the tensor stays zero; the list mode, for the same atom,
  applies it.
\<close>

theorem voxelize_dictionary_increment_lost:
  "convert_atom_to_voxel [(0, 0, 0)] 0 16 1 = Inr [[8, 8, 8]] \<and>
   voxelize \<lparr>box_width = 16, voxel_width = 1\<rparr> convert_atom_to_voxel None [(0, 0, 0)]
     (Some [(0, Count 1)]) None None 1 = Inr (zeros (16, 16, 16, 1)) \<and>
   (\<exists>t. voxelize \<lparr>box_width = 16, voxel_width = 1\<rparr> convert_atom_to_voxel None [(0, 0, 0)]
          None (Some [0]) None 1 = Inr t \<and>
        shape t = (16, 16, 16, 1) \<and> entry t (8, 8, 8, 0) = 1)"
  by (simp add: voxelize_def voxels_per_edge_def convert_atom_to_voxel_def bucket_def
      increment_by_features_def increment_listed_def tensor_iadd_def axis_index_def
      array_get_def bind_err_def try_continue_def zeros_def)

section \<open>Voxel buckets\<close>

text \<open>
  Claim C3, as amended. For an atom of the coordinate array and a voxel width other than
  zero, \<^verbatim>\<open>convert_atom_to_voxel\<close> returns exactly one cell, whose index on each axis is
  computed from that axis alone as the floor of
  \<open>\<bar>coordinate + box_width / 2\<bar> / voxel_width\<close>: the source takes the absolute value
  of the shifted coordinate before it divides. On an axis where the atom does not lie
  beyond the negative face of the box (\<open>- box_width / 2 \<le> coordinate\<close>) this is the
  floor of \<open>(coordinate + box_width / 2) / voxel_width\<close>. An atom on a voxel boundary is
  therefore assigned to one cell, never two.
\<close>

theorem convert_atom_to_voxel_cell:
  "atom_index < length molecule_xyz \<Longrightarrow> vw \<noteq> 0 \<Longrightarrow>
   molecule_xyz ! atom_index = (x, y, z) \<Longrightarrow>
   convert_atom_to_voxel molecule_xyz atom_index bw vw =
     Inr [[\<lfloor>\<bar>x + bw / 2\<bar> / vw\<rfloor>, \<lfloor>\<bar>y + bw / 2\<bar> / vw\<rfloor>, \<lfloor>\<bar>z + bw / 2\<bar> / vw\<rfloor>]] \<and>
   (- (bw / 2) \<le> x \<longrightarrow> \<lfloor>\<bar>x + bw / 2\<bar> / vw\<rfloor> = \<lfloor>(x + bw / 2) / vw\<rfloor>) \<and>
   (- (bw / 2) \<le> y \<longrightarrow> \<lfloor>\<bar>y + bw / 2\<bar> / vw\<rfloor> = \<lfloor>(y + bw / 2) / vw\<rfloor>) \<and>
   (- (bw / 2) \<le> z \<longrightarrow> \<lfloor>\<bar>z + bw / 2\<bar> / vw\<rfloor> = \<lfloor>(z + bw / 2) / vw\<rfloor>)"
  by (simp add: convert_atom_to_voxel_def bucket_def abs_if)

text \<open>
  An atom on the voxel boundary \<open>x = 1\<close> and on the face \<open>z = - 8\<close> of a box of width 16
  with unit voxels falls into the single cell \<open>(9, 8, 0)\<close>.
\<close>

theorem convert_atom_to_voxel_cell_witness:
  "(0::nat) < length [(1 :: real, 0 :: real, - 8 :: real)] \<and> (1::real) \<noteq> 0 \<and>
   convert_atom_to_voxel [(1, 0, - 8)] 0 16 1 = Inr [[9, 8, 0]]"
  using convert_atom_to_voxel_cell [of 0 "[(1, 0, - 8)]" 1 1 0 "- 8" 16]
  by simp

text \<open>
  The formula without the absolute value fails beyond the negative face: the atom at
  \<open>x = - 10\<close> is put into bucket 2 on the first axis, where the floor of
  \<open>(- 10 + 16 / 2) / 1\<close> is \<open>- 2\<close>.
\<close>

theorem convert_atom_to_voxel_formula_counterexample:
  "convert_atom_to_voxel [(- 10, 0, 0)] 0 16 1 = Inr [[2, 8, 8]] \<and>
   \<lfloor>((- 10 :: real) + 16 / 2) / 1\<rfloor> = - 2"
  by (simp add: convert_atom_to_voxel_def bucket_def)

end
